theory Spec2Isabelle
  imports Complex_Main
begin

section \<open>Eigen value types used by the trackball\<close>

text \<open>
  The trackball of \<^verbatim>\<open>src/libs/Tucano/Trackball.hpp\<close> computes with Eigen vectors,
  quaternions and matrices over C++ \<^verbatim>\<open>float\<close>.  The scalar type is idealised as
  \<^typ>\<open>real\<close>: every result below is a statement about exact arithmetic, and the
  rounding of single precision is outside the model.  \<^verbatim>\<open>std::sqrt\<close> is \<^const>\<open>sqrt\<close>,
  \<^verbatim>\<open>acos\<close> is \<^const>\<open>arccos\<close>.
\<close>

datatype vec2 = Vec2 (v2x: real) (v2y: real)

datatype vec3 = Vec3 (v3x: real) (v3y: real) (v3z: real)

datatype vec4 = Vec4 (v4_0: real) (v4_1: real) (v4_2: real) (v4_3: real)

datatype quat = Quat (qw: real) (qx: real) (qy: real) (qz: real)

datatype mat3 = Mat3 (m3r0: vec3) (m3r1: vec3) (m3r2: vec3)

datatype mat4 = Mat4 (m4r0: vec4) (m4r1: vec4) (m4r2: vec4) (m4r3: vec4)

subsection \<open>Vectors\<close>

definition vec2_sub :: "vec2 \<Rightarrow> vec2 \<Rightarrow> vec2" where
  "vec2_sub a b = Vec2 (v2x a - v2x b) (v2y a - v2y b)"

definition vec3_add :: "vec3 \<Rightarrow> vec3 \<Rightarrow> vec3" where
  "vec3_add a b = Vec3 (v3x a + v3x b) (v3y a + v3y b) (v3z a + v3z b)"

definition vec3_scale :: "real \<Rightarrow> vec3 \<Rightarrow> vec3" where
  "vec3_scale k a = Vec3 (k * v3x a) (k * v3y a) (k * v3z a)"

text \<open>\<^verbatim>\<open>v.head(2)\<close>: the first two coefficients.\<close>

definition head2 :: "vec3 \<Rightarrow> vec2" where
  "head2 a = Vec2 (v3x a) (v3y a)"

definition dot3 :: "vec3 \<Rightarrow> vec3 \<Rightarrow> real" where
  "dot3 a b = v3x a * v3x b + v3y a * v3y b + v3z a * v3z b"

definition cross :: "vec3 \<Rightarrow> vec3 \<Rightarrow> vec3" where
  "cross a b = Vec3 (v3y a * v3z b - v3z a * v3y b)
                    (v3z a * v3x b - v3x a * v3z b)
                    (v3x a * v3y b - v3y a * v3x b)"

definition norm3 :: "vec3 \<Rightarrow> real" where
  "norm3 a = sqrt (dot3 a a)"

text \<open>\<^verbatim>\<open>v.normalize()\<close> divides every coefficient by the norm.\<close>

definition normalize3 :: "vec3 \<Rightarrow> vec3" where
  "normalize3 a = Vec3 (v3x a / norm3 a) (v3y a / norm3 a) (v3z a / norm3 a)"

subsection \<open>Quaternions\<close>

definition qIdentity :: quat where
  "qIdentity = Quat 1 0 0 0"

definition qvec :: "quat \<Rightarrow> vec3" where
  "qvec q = Vec3 (qx q) (qy q) (qz q)"

text \<open>The Hamilton product, \<^verbatim>\<open>a * b\<close> on \<^verbatim>\<open>Eigen::Quaternion\<close>.\<close>

definition qmul :: "quat \<Rightarrow> quat \<Rightarrow> quat" where
  "qmul a b = Quat
     (qw a * qw b - qx a * qx b - qy a * qy b - qz a * qz b)
     (qw a * qx b + qx a * qw b + qy a * qz b - qz a * qy b)
     (qw a * qy b + qy a * qw b + qz a * qx b - qx a * qz b)
     (qw a * qz b + qz a * qw b + qx a * qy b - qy a * qx b)"

definition qsquaredNorm :: "quat \<Rightarrow> real" where
  "qsquaredNorm q = qw q * qw q + qx q * qx q + qy q * qy q + qz q * qz q"

definition qnorm :: "quat \<Rightarrow> real" where
  "qnorm q = sqrt (qsquaredNorm q)"

text \<open>
  \<^verbatim>\<open>q.normalize()\<close> divides every coefficient by the norm, without a guard.  The
  quotient exists for a non-zero norm; the results below apply it to quaternions of
  norm one only.
\<close>

definition qnormalize :: "quat \<Rightarrow> quat" where
  "qnormalize q = Quat (qw q / qnorm q) (qx q / qnorm q) (qy q / qnorm q) (qz q / qnorm q)"

text \<open>
  \<^verbatim>\<open>q.inverse()\<close>: the conjugate over the squared norm, and the zero quaternion
  when the squared norm is not positive.
\<close>

definition qinverse :: "quat \<Rightarrow> quat" where
  "qinverse q =
     (if qsquaredNorm q > 0
      then Quat (qw q / qsquaredNorm q) (- qx q / qsquaredNorm q)
                (- qy q / qsquaredNorm q) (- qz q / qsquaredNorm q)
      else Quat 0 0 0 0)"

text \<open>
  \<^verbatim>\<open>q * v\<close> for a vector \<open>v\<close>: Eigen computes \<open>uv = 2 (q.vec \<times> v)\<close> and returns
  \<open>v + q.w uv + q.vec \<times> uv\<close>.
\<close>

definition qrotate :: "quat \<Rightarrow> vec3 \<Rightarrow> vec3" where
  "qrotate q v =
     (let uv = vec3_scale 2 (cross (qvec q) v)
      in vec3_add (vec3_add v (vec3_scale (qw q) uv)) (cross (qvec q) uv))"

text \<open>\<^verbatim>\<open>Quaternion q (AngleAxis (angle, axis))\<close>.\<close>

definition quat_of_AngleAxis :: "real \<Rightarrow> vec3 \<Rightarrow> quat" where
  "quat_of_AngleAxis angle axis =
     Quat (cos (angle / 2)) (sin (angle / 2) * v3x axis)
          (sin (angle / 2) * v3y axis) (sin (angle / 2) * v3z axis)"

text \<open>\<^verbatim>\<open>q.toRotationMatrix()\<close>.\<close>

definition toRotationMatrix :: "quat \<Rightarrow> mat3" where
  "toRotationMatrix q =
     (let tx = 2 * qx q; ty = 2 * qy q; tz = 2 * qz q;
          twx = tx * qw q; twy = ty * qw q; twz = tz * qw q;
          txx = tx * qx q; txy = ty * qx q; txz = tz * qx q;
          tyy = ty * qy q; tyz = tz * qy q; tzz = tz * qz q
      in Mat3 (Vec3 (1 - (tyy + tzz)) (txy - twz) (txz + twy))
              (Vec3 (txy + twz) (1 - (txx + tzz)) (tyz - twx))
              (Vec3 (txz - twy) (tyz + twx) (1 - (txx + tyy))))"

text \<open>
  The assignment of a \<^verbatim>\<open>Matrix3f\<close> to a quaternion (used by
  \<^verbatim>\<open>default_quaternion = rot\<close>): Eigen branches on the trace and otherwise on the
  largest diagonal coefficient.
\<close>

definition quat_of_mat3 :: "mat3 \<Rightarrow> quat" where
  "quat_of_mat3 m =
     (let m00 = v3x (m3r0 m); m01 = v3y (m3r0 m); m02 = v3z (m3r0 m);
          m10 = v3x (m3r1 m); m11 = v3y (m3r1 m); m12 = v3z (m3r1 m);
          m20 = v3x (m3r2 m); m21 = v3y (m3r2 m); m22 = v3z (m3r2 m);
          t = m00 + m11 + m22
      in if t > 0 then
           (let r = sqrt (t + 1); k = 0.5 / r
            in Quat (0.5 * r) ((m21 - m12) * k) ((m02 - m20) * k) ((m10 - m01) * k))
         else if m22 > (if m11 > m00 then m11 else m00) then
           (let r = sqrt (m22 - m00 - m11 + 1); k = 0.5 / r
            in Quat ((m10 - m01) * k) ((m02 + m20) * k) ((m12 + m21) * k) (0.5 * r))
         else if m11 > m00 then
           (let r = sqrt (m11 - m22 - m00 + 1); k = 0.5 / r
            in Quat ((m02 - m20) * k) ((m01 + m10) * k) (0.5 * r) ((m21 + m12) * k))
         else
           (let r = sqrt (m00 - m11 - m22 + 1); k = 0.5 / r
            in Quat ((m21 - m12) * k) (0.5 * r) ((m10 + m01) * k) ((m20 + m02) * k)))"

subsection \<open>4x4 matrices\<close>

definition mat4_Identity :: mat4 where
  "mat4_Identity = Mat4 (Vec4 1 0 0 0) (Vec4 0 1 0 0) (Vec4 0 0 1 0) (Vec4 0 0 0 1)"

definition dot4 :: "vec4 \<Rightarrow> vec4 \<Rightarrow> real" where
  "dot4 a b = v4_0 a * v4_0 b + v4_1 a * v4_1 b + v4_2 a * v4_2 b + v4_3 a * v4_3 b"

definition col4 :: "(vec4 \<Rightarrow> real) \<Rightarrow> mat4 \<Rightarrow> vec4" where
  "col4 sel m = Vec4 (sel (m4r0 m)) (sel (m4r1 m)) (sel (m4r2 m)) (sel (m4r3 m))"

definition row_mul :: "vec4 \<Rightarrow> mat4 \<Rightarrow> vec4" where
  "row_mul r m = Vec4 (dot4 r (col4 v4_0 m)) (dot4 r (col4 v4_1 m))
                      (dot4 r (col4 v4_2 m)) (dot4 r (col4 v4_3 m))"

definition mat4_mul :: "mat4 \<Rightarrow> mat4 \<Rightarrow> mat4" where
  "mat4_mul a b = Mat4 (row_mul (m4r0 a) b) (row_mul (m4r1 a) b)
                       (row_mul (m4r2 a) b) (row_mul (m4r3 a) b)"

text \<open>The homogeneous matrices of a rotation, a translation and a uniform scale.\<close>

definition rotation4 :: "quat \<Rightarrow> mat4" where
  "rotation4 q =
     (let r = toRotationMatrix q
      in Mat4 (Vec4 (v3x (m3r0 r)) (v3y (m3r0 r)) (v3z (m3r0 r)) 0)
              (Vec4 (v3x (m3r1 r)) (v3y (m3r1 r)) (v3z (m3r1 r)) 0)
              (Vec4 (v3x (m3r2 r)) (v3y (m3r2 r)) (v3z (m3r2 r)) 0)
              (Vec4 0 0 0 1))"

definition translation4 :: "vec3 \<Rightarrow> mat4" where
  "translation4 t = Mat4 (Vec4 1 0 0 (v3x t)) (Vec4 0 1 0 (v3y t))
                         (Vec4 0 0 1 (v3z t)) (Vec4 0 0 0 1)"

definition scaling4 :: "real \<Rightarrow> mat4" where
  "scaling4 k = Mat4 (Vec4 k 0 0 0) (Vec4 0 k 0 0) (Vec4 0 0 k 0) (Vec4 0 0 0 1)"

text \<open>
  The action of a matrix on a vector, and a point in homogeneous coordinates.
\<close>

definition mat3_apply :: "mat3 \<Rightarrow> vec3 \<Rightarrow> vec3" where
  "mat3_apply m v = Vec3 (dot3 (m3r0 m) v) (dot3 (m3r1 m) v) (dot3 (m3r2 m) v)"

definition mat4_apply :: "mat4 \<Rightarrow> vec4 \<Rightarrow> vec4" where
  "mat4_apply m v =
     Vec4 (dot4 (m4r0 m) v) (dot4 (m4r1 m) v) (dot4 (m4r2 m) v) (dot4 (m4r3 m) v)"

definition point4 :: "vec3 \<Rightarrow> vec4" where
  "point4 p = Vec4 (v3x p) (v3y p) (v3z p) 1"

section \<open>The controller state\<close>

text \<open>
  The data members of \<^verbatim>\<open>class Trackball : public Tucano::Camera\<close>.  The first three
  fields are the members of the base class that the trackball reads or writes: the
  view matrix, the scene projection matrix and the viewport (indexed
  \<^verbatim>\<open>viewport[0..3]\<close> by \<^verbatim>\<open>normalizePosition\<close>).
\<close>

record trackball =
  viewMatrix :: mat4
  projectionMatrix :: mat4
  viewport :: vec4
  zoom :: real
  rotating :: bool
  translating :: bool
  drawTrackball :: bool
  trackballProjectionMatrix :: mat4
  initialPosition :: vec3
  finalPosition :: vec3
  initialTranslationPosition :: vec2
  finalTranslationPosition :: vec2
  quaternion :: quat
  default_quaternion :: quat
  translationVector :: vec3
  defaultTranslation :: vec3
  radius :: real
  use_default_shaders :: bool

subsection \<open>Primitives of the camera base\<close>

text \<open>
  Modelled from the spec: \<^verbatim>\<open>Camera::resetViewMatrix\<close> of \<^verbatim>\<open>Camera.hpp\<close>, which is not
  among the sources.  The spec's view-matrix composer starts from identity.
\<close>

definition resetViewMatrix :: "trackball \<Rightarrow> trackball" where
  "resetViewMatrix s = s\<lparr>viewMatrix := mat4_Identity\<rparr>"

text \<open>
  Modelled from the spec: \<^verbatim>\<open>Camera::rotate\<close> of \<^verbatim>\<open>Camera.hpp\<close>, which is not among the
  sources.  The operator multiplies the rotation into the maintained view matrix;
  the operator applied last is the rightmost factor, hence the first applied to a
  point.
\<close>

definition rotate_cam :: "quat \<Rightarrow> trackball \<Rightarrow> trackball" where
  "rotate_cam q s = s\<lparr>viewMatrix := mat4_mul (viewMatrix s) (rotation4 q)\<rparr>"

text \<open>
  Modelled from the spec: \<^verbatim>\<open>Camera::translate\<close> of \<^verbatim>\<open>Camera.hpp\<close>, which is not among
  the sources; composed like \<^const>\<open>rotate_cam\<close>.
\<close>

definition translate_cam :: "vec3 \<Rightarrow> trackball \<Rightarrow> trackball" where
  "translate_cam t s = s\<lparr>viewMatrix := mat4_mul (viewMatrix s) (translation4 t)\<rparr>"

text \<open>
  Modelled from the spec: \<^verbatim>\<open>Camera::scale\<close> of \<^verbatim>\<open>Camera.hpp\<close>, which is not among the
  sources; composed like \<^const>\<open>rotate_cam\<close>.
\<close>

definition scale_cam :: "real \<Rightarrow> trackball \<Rightarrow> trackball" where
  "scale_cam k s = s\<lparr>viewMatrix := mat4_mul (viewMatrix s) (scaling4 k)\<rparr>"

text \<open>
  Modelled from the spec: the assignment of the viewport rectangle, which belongs to
  the camera base (\<^verbatim>\<open>Camera.hpp\<close>, not among the sources).  The trackball only reads
  the viewport.
\<close>

definition setViewport :: "vec4 \<Rightarrow> trackball \<Rightarrow> trackball" where
  "setViewport v s = s\<lparr>viewport := v\<rparr>"

subsection \<open>View-matrix composer, reset and construction\<close>

definition updateViewMatrix :: "trackball \<Rightarrow> trackball" where
  "updateViewMatrix s =
     scale_cam (zoom s)
       (translate_cam (translationVector s)
         (rotate_cam (quaternion s)
           (translate_cam (defaultTranslation s)
             (rotate_cam (default_quaternion s)
               (resetViewMatrix s)))))"

definition reset :: "trackball \<Rightarrow> trackball" where
  "reset s =
     updateViewMatrix
       (resetViewMatrix
         (s\<lparr>quaternion := qIdentity,
            default_quaternion := qIdentity,
            zoom := 1,
            translationVector := Vec3 0 0 0,
            rotating := False,
            translating := False\<rparr>))"

definition initOpenGLMatrices :: "trackball \<Rightarrow> trackball" where
  "initOpenGLMatrices s =
     (let s1 = reset s;
          s2 = translate_cam (defaultTranslation s1) s1
      in s2\<lparr>trackballProjectionMatrix := mat4_Identity\<rparr>)"

text \<open>
  The constructor.  Its argument stands for the object as the base-class constructor
  and the uninitialised members leave it: the constructor assigns neither the
  reference samples nor the viewport.
\<close>

definition Trackball :: "trackball \<Rightarrow> trackball" where
  "Trackball u =
     reset (initOpenGLMatrices
       (u\<lparr>defaultTranslation := Vec3 0 0 (- 4),
          zoom := 1,
          drawTrackball := True,
          radius := 0.8\<rparr>))"

subsection \<open>Accessors and configuration\<close>

definition setDefaultTranslation :: "vec3 \<Rightarrow> trackball \<Rightarrow> trackball" where
  "setDefaultTranslation t s = s\<lparr>defaultTranslation := t\<rparr>"

definition setDefaultRotation :: "mat3 \<Rightarrow> trackball \<Rightarrow> trackball" where
  "setDefaultRotation rot s = s\<lparr>default_quaternion := quat_of_mat3 rot\<rparr>"

definition getRotation :: "trackball \<Rightarrow> quat" where
  "getRotation s = qmul (quaternion s) (default_quaternion s)"

definition setTrackballProjectionMatrix :: "mat4 \<Rightarrow> trackball \<Rightarrow> trackball" where
  "setTrackballProjectionMatrix mat s = s\<lparr>trackballProjectionMatrix := mat\<rparr>"

definition endRotation :: "trackball \<Rightarrow> trackball" where
  "endRotation s = s\<lparr>rotating := False\<rparr>"

definition endTranslation :: "trackball \<Rightarrow> trackball" where
  "endTranslation s = s\<lparr>translating := False\<rparr>"

definition setRenderFlag :: "bool \<Rightarrow> trackball \<Rightarrow> trackball" where
  "setRenderFlag flag s = s\<lparr>drawTrackball := flag\<rparr>"

subsection \<open>Projection model and gesture updates\<close>

definition computeSpherePosition :: "trackball \<Rightarrow> vec2 \<Rightarrow> vec3" where
  "computeSpherePosition s pos =
     (let p = pos; r = radius s;
          z = (if v2x p * v2x p + v2y p * v2y p \<le> (r * r) / 2
               then sqrt (r * r - v2x p * v2x p - v2y p * v2y p)
               else (r * r) / (2 * sqrt (v2x p * v2x p + v2y p * v2y p)))
      in Vec3 (v2x p) (v2y p) z)"

definition computeRotationAngle :: "trackball \<Rightarrow> trackball" where
  "computeRotationAngle s =
     (let ip = (if norm3 (initialPosition s) > 0
                then normalize3 (initialPosition s) else initialPosition s);
          fp = (if norm3 (finalPosition s) > 0
                then normalize3 (finalPosition s) else finalPosition s);
          axis0 = cross ip fp;
          rotationAxis = (if norm3 axis0 \<noteq> 0 then normalize3 axis0 else axis0);
          d = dot3 ip fp;
          rotationAngle = (if d \<le> 1 then arccos d else 0);
          q = quat_of_AngleAxis rotationAngle rotationAxis
      in s\<lparr>initialPosition := ip,
           finalPosition := fp,
           quaternion := qnormalize (qmul q (quaternion s))\<rparr>)"

definition computeTranslationVector :: "trackball \<Rightarrow> trackball" where
  "computeTranslationVector s =
     (let translationFactor =
            vec2_sub (finalTranslationPosition s) (initialTranslationPosition s)
      in s\<lparr>translationVector :=
             vec3_add (translationVector s)
               (qrotate (qinverse (quaternion s))
                  (Vec3 (v2x translationFactor) (v2y translationFactor) 0))\<rparr>)"

definition normalizePosition :: "trackball \<Rightarrow> vec2 \<Rightarrow> vec2" where
  "normalizePosition s pos =
     Vec2 (v2x pos / ((v4_2 (viewport s) - v4_0 (viewport s)) / 2) - 1)
          (1 - v2y pos / ((v4_3 (viewport s) - v4_1 (viewport s)) / 2))"

definition rotateCamera :: "vec2 \<Rightarrow> trackball \<Rightarrow> trackball" where
  "rotateCamera pos s =
     (let normalized_pos = computeSpherePosition s (normalizePosition s pos)
      in if \<not> rotating s then
           s\<lparr>rotating := True, initialPosition := normalized_pos\<rparr>
         else if pos \<noteq> head2 (initialPosition s) then
           (let s1 = s\<lparr>finalPosition := normalized_pos\<rparr>;
                s2 = computeRotationAngle s1;
                s3 = updateViewMatrix s2
            in s3\<lparr>initialPosition := finalPosition s3\<rparr>)
         else s)"

definition translateCamera :: "vec2 \<Rightarrow> trackball \<Rightarrow> trackball" where
  "translateCamera pos s =
     (let normalized_pos = normalizePosition s pos
      in if \<not> translating s then
           s\<lparr>translating := True, initialTranslationPosition := normalized_pos\<rparr>
         else if pos \<noteq> head2 (initialPosition s) then
           (let s1 = s\<lparr>finalTranslationPosition := normalized_pos\<rparr>;
                s2 = computeTranslationVector s1;
                s3 = updateViewMatrix s2
            in s3\<lparr>initialTranslationPosition := finalTranslationPosition s3\<rparr>)
         else s)"

subsection \<open>Zoom and direct accumulator updates\<close>

definition increaseZoom :: "real \<Rightarrow> trackball \<Rightarrow> trackball" where
  "increaseZoom scale s = updateViewMatrix (s\<lparr>zoom := zoom s * scale\<rparr>)"

definition decreaseZoom :: "real \<Rightarrow> trackball \<Rightarrow> trackball" where
  "decreaseZoom scale s = updateViewMatrix (s\<lparr>zoom := zoom s / scale\<rparr>)"

definition applyScaleToViewMatrix :: "real \<Rightarrow> trackball \<Rightarrow> trackball" where
  "applyScaleToViewMatrix scale s = updateViewMatrix (s\<lparr>zoom := scale\<rparr>)"

definition translateViewMatrix :: "vec3 \<Rightarrow> trackball \<Rightarrow> trackball" where
  "translateViewMatrix translation s =
     s\<lparr>translationVector := vec3_add (translationVector s) translation\<rparr>"

text \<open>
  \<^verbatim>\<open>rotateViewMatrix (rot)\<close> first builds \<^verbatim>\<open>Quaternion q (rot.rotation().matrix())\<close>.
  Eigen extracts the rotation part of the affine map by a singular value
  decomposition; the argument of the model is that rotation matrix.
\<close>

definition rotateViewMatrix :: "mat3 \<Rightarrow> trackball \<Rightarrow> trackball" where
  "rotateViewMatrix rot s =
     (let q = quat_of_mat3 rot
      in s\<lparr>quaternion := qnormalize (qmul (quaternion s) q)\<rparr>)"

text \<open>
  The product that the spec lists for the view matrix: identity, default rotation,
  default translation, accumulated rotation, accumulated translation, zoom; the
  rightmost factor acts on a point first.
\<close>

definition composition :: "trackball \<Rightarrow> mat4" where
  "composition s =
     mat4_mul (mat4_mul (mat4_mul (mat4_mul (mat4_mul mat4_Identity
       (rotation4 (default_quaternion s)))
       (translation4 (defaultTranslation s)))
       (rotation4 (quaternion s)))
       (translation4 (translationVector s)))
       (scaling4 (zoom s))"

subsection \<open>Concrete objects\<close>

text \<open>
  An object as it is before the constructor body runs, with the viewport of the spec's
  scenario, \<open>(0, 0, 800, 600)\<close>, and zeros in the members that are still unassigned.
\<close>

definition base_object :: trackball where
  "base_object =
     \<lparr>viewMatrix = mat4_Identity,
      projectionMatrix = mat4_Identity,
      viewport = Vec4 0 0 800 600,
      zoom = 0,
      rotating = False,
      translating = False,
      drawTrackball = False,
      trackballProjectionMatrix = mat4_Identity,
      initialPosition = Vec3 0 0 0,
      finalPosition = Vec3 0 0 0,
      initialTranslationPosition = Vec2 0 0,
      finalTranslationPosition = Vec2 0 0,
      quaternion = Quat 0 0 0 0,
      default_quaternion = Quat 0 0 0 0,
      translationVector = Vec3 0 0 0,
      defaultTranslation = Vec3 0 0 0,
      radius = 0,
      use_default_shaders = False\<rparr>"

text \<open>The half turn about the X axis, as a rotation matrix.\<close>

definition rotX180 :: mat3 where
  "rotX180 = Mat3 (Vec3 1 0 0) (Vec3 0 (- 1) 0) (Vec3 0 0 (- 1))"

text \<open>
  A state with both gestures active: a rotation begun at the screen position
  \<open>(800, 300)\<close>, then a translation begun at \<open>(400, 300)\<close>.
\<close>

definition overlap_state :: trackball where
  "overlap_state =
     translateCamera (Vec2 400 300) (rotateCamera (Vec2 800 300) (Trackball base_object))"

subsection \<open>Well-formed and reachable states\<close>

text \<open>
  \<^verbatim>\<open>normalizePosition\<close> divides by half the width and half the height of the viewport.
  In exact arithmetic the quotient exists only for a viewport with non-zero extent.
\<close>

definition viewport_ok :: "trackball \<Rightarrow> bool" where
  "viewport_ok s =
     (v4_2 (viewport s) \<noteq> v4_0 (viewport s) \<and> v4_3 (viewport s) \<noteq> v4_1 (viewport s))"

text \<open>
  The invariant of the accumulated orientation: the quaternion has norm one, the radius
  is positive, and the reference sample of an active rotation lies above the plane
  (the surface height is positive for a positive radius).
\<close>

definition well_formed :: "trackball \<Rightarrow> bool" where
  "well_formed s =
     (qnorm (quaternion s) = 1 \<and> 0 < radius s
      \<and> (rotating s \<longrightarrow> 0 < v3z (initialPosition s)))"

text \<open>
  The states of a controller: the constructor applied to any object, followed by any
  sequence of the public operations of \<^verbatim>\<open>Trackball.hpp\<close> and of viewport assignments.
  \<^item> The gesture updates are taken on a viewport of non-zero extent and
    \<^verbatim>\<open>decreaseZoom\<close> with a non-zero divisor: the quotients do not exist otherwise.
  \<^item> \<^verbatim>\<open>setTrackballPerspectiveMatrix\<close> and \<^verbatim>\<open>setTrackballOrthographicMatrix\<close> build a
    matrix in the camera base and pass it to \<^verbatim>\<open>setTrackballProjectionMatrix\<close>; the
    rule for the latter covers them.
  \<^item> The argument of \<^verbatim>\<open>rotateViewMatrix\<close> is the rotation matrix that Eigen extracts
    from the affine map, that is, the matrix of a unit quaternion.
  \<^item> The constructor leaves the rotation samples unassigned.  A direct call of the
    virtual step \<^verbatim>\<open>computeRotationAngle\<close> is taken when both samples are surface
    points (positive height), as they are once \<^verbatim>\<open>rotateCamera\<close> has assigned them.
\<close>

inductive reachable :: "trackball \<Rightarrow> bool" where
  r_Trackball: "reachable (Trackball u)"
| r_setViewport: "reachable s \<Longrightarrow> reachable (setViewport v s)"
| r_reset: "reachable s \<Longrightarrow> reachable (reset s)"
| r_initOpenGLMatrices: "reachable s \<Longrightarrow> reachable (initOpenGLMatrices s)"
| r_setDefaultTranslation: "reachable s \<Longrightarrow> reachable (setDefaultTranslation t s)"
| r_setDefaultRotation: "reachable s \<Longrightarrow> reachable (setDefaultRotation rot s)"
| r_setTrackballProjectionMatrix:
    "reachable s \<Longrightarrow> reachable (setTrackballProjectionMatrix mat s)"
| r_setRenderFlag: "reachable s \<Longrightarrow> reachable (setRenderFlag flag s)"
| r_endRotation: "reachable s \<Longrightarrow> reachable (endRotation s)"
| r_endTranslation: "reachable s \<Longrightarrow> reachable (endTranslation s)"
| r_rotateCamera: "reachable s \<Longrightarrow> viewport_ok s \<Longrightarrow> reachable (rotateCamera pos s)"
| r_translateCamera:
    "reachable s \<Longrightarrow> viewport_ok s \<Longrightarrow> reachable (translateCamera pos s)"
| r_increaseZoom: "reachable s \<Longrightarrow> reachable (increaseZoom scale s)"
| r_decreaseZoom: "reachable s \<Longrightarrow> scale \<noteq> 0 \<Longrightarrow> reachable (decreaseZoom scale s)"
| r_applyScaleToViewMatrix: "reachable s \<Longrightarrow> reachable (applyScaleToViewMatrix scale s)"
| r_translateViewMatrix: "reachable s \<Longrightarrow> reachable (translateViewMatrix translation s)"
| r_rotateViewMatrix:
    "reachable s \<Longrightarrow> qnorm u = 1 \<Longrightarrow> reachable (rotateViewMatrix (toRotationMatrix u) s)"
| r_updateViewMatrix: "reachable s \<Longrightarrow> reachable (updateViewMatrix s)"
| r_computeTranslationVector: "reachable s \<Longrightarrow> reachable (computeTranslationVector s)"
| r_computeRotationAngle:
    "reachable s \<Longrightarrow> 0 < v3z (initialPosition s) \<Longrightarrow> 0 < v3z (finalPosition s) \<Longrightarrow>
     reachable (computeRotationAngle s)"

subsection \<open>The scenario of the spec\<close>

text \<open>
  Viewport \<open>(0, 0, 800, 600)\<close>, radius \<open>0.8\<close>: a rotation begun at the screen centre
  \<open>(400, 300)\<close> and updated at \<open>(600, 300)\<close>.  The angle of the resulting rotation is
  the arc cosine of the cosine between the two unit surface points.
\<close>

definition scenario_begin :: trackball where
  "scenario_begin = rotateCamera (Vec2 400 300) (Trackball base_object)"

definition scenario_update :: trackball where
  "scenario_update = rotateCamera (Vec2 600 300) scenario_begin"

definition scenario_angle :: real where
  "scenario_angle = arccos (sqrt 0.39 / 0.8)"

text \<open>
  The same rotation begun at \<open>(400, 300)\<close>, updated at the screen position
  \<open>(400, 100)\<close>: the state in which that position is given once more.
\<close>

definition repeat_state :: trackball where
  "repeat_state = rotateCamera (Vec2 400 100) scenario_begin"


section \<open>Properties\<close>

subsection \<open>The view-matrix composition\<close>

lemma mat4_mul_Identity_left [simp]: "mat4_mul mat4_Identity m = m"
  by (cases m) (simp add: mat4_mul_def row_mul_def dot4_def col4_def mat4_Identity_def)

lemma mat4_mul_Identity_right [simp]: "mat4_mul m mat4_Identity = m"
  by (cases m) (simp add: mat4_mul_def row_mul_def dot4_def col4_def mat4_Identity_def)

lemma rotation4_qIdentity [simp]: "rotation4 qIdentity = mat4_Identity"
  by (simp add: rotation4_def toRotationMatrix_def qIdentity_def mat4_Identity_def)

lemma translation4_zero [simp]: "translation4 (Vec3 0 0 0) = mat4_Identity"
  by (simp add: translation4_def mat4_Identity_def)

lemma scaling4_one [simp]: "scaling4 1 = mat4_Identity"
  by (simp add: scaling4_def mat4_Identity_def)

lemma updateViewMatrix_eq: "updateViewMatrix s = s\<lparr>viewMatrix := composition s\<rparr>"
  by (simp add: updateViewMatrix_def composition_def scale_cam_def translate_cam_def
      rotate_cam_def resetViewMatrix_def)

lemma composition_viewMatrix_update [simp]:
  "composition (s\<lparr>viewMatrix := m\<rparr>) = composition s"
  by (simp add: composition_def)

lemma mat4_apply_mul: "mat4_apply (mat4_mul a b) v = mat4_apply a (mat4_apply b v)"
  by (simp add: mat4_apply_def mat4_mul_def row_mul_def col4_def dot4_def algebra_simps)

lemma mat4_apply_Identity: "mat4_apply mat4_Identity v = v"
  by (cases v) (simp add: mat4_apply_def mat4_Identity_def dot4_def)

lemma mat4_apply_rotation4:
  "mat4_apply (rotation4 q) (point4 p) = point4 (mat3_apply (toRotationMatrix q) p)"
  by (simp add: mat4_apply_def rotation4_def Let_def point4_def mat3_apply_def dot4_def dot3_def)

lemma mat4_apply_translation4:
  "mat4_apply (translation4 t) (point4 p) = point4 (vec3_add t p)"
  by (simp add: mat4_apply_def translation4_def point4_def vec3_add_def dot4_def add.commute)

lemma mat4_apply_scaling4:
  "mat4_apply (scaling4 k) (point4 p) = point4 (vec3_scale k p)"
  by (simp add: mat4_apply_def scaling4_def point4_def vec3_scale_def dot4_def)

lemma composition_acts_on_point:
  "mat4_apply (composition s) (point4 p) =
     point4 (mat3_apply (toRotationMatrix (default_quaternion s))
       (vec3_add (defaultTranslation s)
         (mat3_apply (toRotationMatrix (quaternion s))
           (vec3_add (translationVector s) (vec3_scale (zoom s) p)))))"
  by (simp add: composition_def mat4_apply_mul mat4_apply_Identity mat4_apply_rotation4
      mat4_apply_translation4 mat4_apply_scaling4)

text \<open>
  C1.  \<^verbatim>\<open>updateViewMatrix\<close> overwrites the view matrix, whatever it held, by the product
  identity * R(q_default) * T(t_default) * R(q) * T(t) * S(z) in this order, and changes
  nothing else of the controller.  The rightmost factor acts first: a point is scaled
  by \<open>z\<close>, translated by \<open>t\<close>, rotated by \<open>q\<close>, translated by \<open>t_default\<close> and rotated by
  \<open>q_default\<close>.
\<close>

theorem updateViewMatrix_composition:
  "viewMatrix (updateViewMatrix s) =
     mat4_mul (mat4_mul (mat4_mul (mat4_mul (mat4_mul mat4_Identity
       (rotation4 (default_quaternion s)))
       (translation4 (defaultTranslation s)))
       (rotation4 (quaternion s)))
       (translation4 (translationVector s)))
       (scaling4 (zoom s))
   \<and> updateViewMatrix (s\<lparr>viewMatrix := m\<rparr>) = updateViewMatrix s
   \<and> updateViewMatrix s = s\<lparr>viewMatrix := viewMatrix (updateViewMatrix s)\<rparr>
   \<and> mat4_apply (viewMatrix (updateViewMatrix s)) (point4 p) =
       point4 (mat3_apply (toRotationMatrix (default_quaternion s))
         (vec3_add (defaultTranslation s)
           (mat3_apply (toRotationMatrix (quaternion s))
             (vec3_add (translationVector s) (vec3_scale (zoom s) p)))))"
  using composition_acts_on_point [of s p]
  by (simp add: updateViewMatrix_eq) (simp add: composition_def)

subsection \<open>The projection model\<close>

text \<open>
  C4.  The surface point of a normalized position \<open>p\<close> keeps \<open>p.x\<close> and \<open>p.y\<close>; its
  height is \<open>sqrt (r\<^sup>2 - p.x\<^sup>2 - p.y\<^sup>2)\<close> when \<open>p.x\<^sup>2 + p.y\<^sup>2 \<le> r\<^sup>2 / 2\<close> and
  \<open>r\<^sup>2 / (2 sqrt (p.x\<^sup>2 + p.y\<^sup>2))\<close> otherwise.  The point is returned as computed, not
  scaled to unit length.
\<close>

theorem computeSpherePosition_surface:
  "computeSpherePosition s p =
     Vec3 (v2x p) (v2y p)
       (if (v2x p)\<^sup>2 + (v2y p)\<^sup>2 \<le> (radius s)\<^sup>2 / 2
        then sqrt ((radius s)\<^sup>2 - (v2x p)\<^sup>2 - (v2y p)\<^sup>2)
        else (radius s)\<^sup>2 / (2 * sqrt ((v2x p)\<^sup>2 + (v2y p)\<^sup>2)))"
  by (simp add: computeSpherePosition_def Let_def power2_eq_square)

subsection \<open>Reset and construction\<close>

lemma reset_eq:
  "reset s = s\<lparr>quaternion := qIdentity, default_quaternion := qIdentity, zoom := 1,
                translationVector := Vec3 0 0 0, rotating := False, translating := False,
                viewMatrix := translation4 (defaultTranslation s)\<rparr>"
  by (simp add: reset_def updateViewMatrix_eq resetViewMatrix_def composition_def)

lemma Trackball_eq:
  "Trackball u = u\<lparr>defaultTranslation := Vec3 0 0 (- 4), zoom := 1, drawTrackball := True,
       radius := 0.8, quaternion := qIdentity, default_quaternion := qIdentity,
       translationVector := Vec3 0 0 0, rotating := False, translating := False,
       trackballProjectionMatrix := mat4_Identity,
       viewMatrix := translation4 (Vec3 0 0 (- 4))\<rparr>"
  by (simp add: Trackball_def initOpenGLMatrices_def Let_def reset_eq translate_cam_def)

text \<open>
  C2 (as amended).  After \<^verbatim>\<open>reset\<close> the accumulated quaternion is the identity, the
  accumulated translation is zero, the zoom is one and both gesture flags are off.  The
  default orientation is reset to the identity as well.  The viewport, the default
  translation, the radius and both projection matrices are kept, and the view matrix is
  the composition of the resulting state.
\<close>

theorem reset_restores_defaults:
  "quaternion (reset s) = qIdentity
   \<and> translationVector (reset s) = Vec3 0 0 0
   \<and> zoom (reset s) = 1
   \<and> \<not> rotating (reset s)
   \<and> \<not> translating (reset s)
   \<and> default_quaternion (reset s) = qIdentity
   \<and> viewport (reset s) = viewport s
   \<and> defaultTranslation (reset s) = defaultTranslation s
   \<and> projectionMatrix (reset s) = projectionMatrix s
   \<and> trackballProjectionMatrix (reset s) = trackballProjectionMatrix s
   \<and> radius (reset s) = radius s
   \<and> viewMatrix (reset s) = composition (reset s)"
  by (simp add: reset_eq composition_def)

text \<open>
  C2 as stated fails: a default orientation set by \<^verbatim>\<open>setDefaultRotation\<close> (here the
  half turn about X) does not survive \<^verbatim>\<open>reset\<close>.
\<close>

theorem reset_discards_default_rotation:
  "default_quaternion (reset (setDefaultRotation rotX180 (Trackball base_object)))
     \<noteq> default_quaternion (setDefaultRotation rotX180 (Trackball base_object))"
  by (simp add: reset_eq setDefaultRotation_def quat_of_mat3_def rotX180_def qIdentity_def)

subsection \<open>An update call while the gesture is idle\<close>

text \<open>
  C8 (as amended).  While the rotation flag is off, \<^verbatim>\<open>rotateCamera\<close> starts a gesture:
  it sets the flag and stores the surface point of the position as the reference
  sample, and changes nothing else (accumulators and view matrix included).  While the
  translation flag is off, \<^verbatim>\<open>translateCamera\<close> does the same with the normalized
  position.
\<close>

theorem idle_update_begins_gesture:
  "(\<not> rotating s \<longrightarrow>
      rotateCamera p s =
        s\<lparr>rotating := True,
          initialPosition := computeSpherePosition s (normalizePosition s p)\<rparr>)
   \<and> (\<not> translating s \<longrightarrow>
      translateCamera p s =
        s\<lparr>translating := True,
          initialTranslationPosition := normalizePosition s p\<rparr>)"
  by (simp add: rotateCamera_def translateCamera_def Let_def)

theorem idle_update_begins_gesture_witness:
  "\<not> rotating (Trackball base_object) \<and> \<not> translating (Trackball base_object)
   \<and> rotateCamera (Vec2 400 300) (Trackball base_object) =
        (Trackball base_object)\<lparr>rotating := True,
          initialPosition := computeSpherePosition (Trackball base_object)
             (normalizePosition (Trackball base_object) (Vec2 400 300))\<rparr>
   \<and> translateCamera (Vec2 400 300) (Trackball base_object) =
        (Trackball base_object)\<lparr>translating := True,
          initialTranslationPosition :=
             normalizePosition (Trackball base_object) (Vec2 400 300)\<rparr>"
  using idle_update_begins_gesture [of "Trackball base_object" "Vec2 400 300"]
  by (simp add: Trackball_eq)

text \<open>
  C8 as stated fails: on the freshly constructed controller, whose rotation flag is off,
  \<^verbatim>\<open>rotateCamera\<close> changes the state.
\<close>

theorem idle_update_changes_state:
  "\<not> rotating (Trackball base_object)
   \<and> rotateCamera (Vec2 400 300) (Trackball base_object) \<noteq> Trackball base_object"
proof -
  have "rotating (rotateCamera (Vec2 400 300) (Trackball base_object))"
    by (simp add: rotateCamera_def Let_def Trackball_eq)
  moreover have "\<not> rotating (Trackball base_object)"
    by (simp add: Trackball_eq base_object_def)
  ultimately show ?thesis by metis
qed

subsection \<open>The guard of the translation update\<close>

lemma overlap_state_eq:
  "overlap_state = (Trackball base_object)
     \<lparr>rotating := True, initialPosition := Vec3 1 0 0.32,
      translating := True, initialTranslationPosition := Vec2 0 0\<rparr>"
  by (simp add: overlap_state_def translateCamera_def rotateCamera_def Let_def Trackball_eq
      normalizePosition_def computeSpherePosition_def base_object_def)

text \<open>The guard of the translation update, as the code has it.\<close>

lemma translateCamera_skip:
  "translating s \<Longrightarrow> p = head2 (initialPosition s) \<Longrightarrow> translateCamera p s = s"
  by (simp add: translateCamera_def Let_def)

lemma translateCamera_update:
  "translating s \<Longrightarrow> p \<noteq> head2 (initialPosition s) \<Longrightarrow>
   translateCamera p s =
     (let s2 = computeTranslationVector
                 (s\<lparr>finalTranslationPosition := normalizePosition s p\<rparr>)
      in s2\<lparr>viewMatrix := composition s2,
            initialTranslationPosition := finalTranslationPosition s2\<rparr>)"
  by (simp add: translateCamera_def Let_def updateViewMatrix_eq)

text \<open>
  C3 fails on the code.  The guard of \<^verbatim>\<open>translateCamera\<close> compares the raw position
  with the first two coefficients of the rotation gesture's sample.  With a rotation
  begun at \<open>(800, 300)\<close> that sample is \<open>(1, 0, 0.32)\<close>; the translation reference is
  \<open>(0, 0)\<close>.  The position \<open>(1, 0)\<close> normalizes to \<open>(-399/400, 1)\<close>, which is not the
  reference, and the update is skipped all the same.
\<close>

theorem translateCamera_guard_reads_rotation_sample:
  "translating overlap_state
   \<and> initialTranslationPosition overlap_state = Vec2 0 0
   \<and> normalizePosition overlap_state (Vec2 1 0) = Vec2 (- (399 / 400)) 1
   \<and> normalizePosition overlap_state (Vec2 1 0) \<noteq> initialTranslationPosition overlap_state
   \<and> head2 (initialPosition overlap_state) = Vec2 1 0
   \<and> translateCamera (Vec2 1 0) overlap_state = overlap_state"
  by (simp add: overlap_state_eq translateCamera_def Let_def head2_def normalizePosition_def
      Trackball_eq base_object_def)

subsection \<open>Direct updates of the accumulators\<close>

lemma quat_of_mat3_rotX180: "quat_of_mat3 rotX180 = Quat 0 1 0 0"
  by (simp add: quat_of_mat3_def rotX180_def)

text \<open>
  The zoom operations and the gesture updates that change an accumulator do recompute
  the view matrix.
\<close>

lemma zoom_operations_recompute:
  "viewMatrix (increaseZoom k s) = composition (increaseZoom k s)"
  "viewMatrix (decreaseZoom k s) = composition (decreaseZoom k s)"
  "viewMatrix (applyScaleToViewMatrix k s) = composition (applyScaleToViewMatrix k s)"
  by (simp_all add: increaseZoom_def decreaseZoom_def applyScaleToViewMatrix_def
      updateViewMatrix_eq)

lemma gesture_updates_recompute:
  "rotating s \<Longrightarrow> p \<noteq> head2 (initialPosition s) \<Longrightarrow>
     viewMatrix (rotateCamera p s) = composition (rotateCamera p s)"
  "translating s \<Longrightarrow> p \<noteq> head2 (initialPosition s) \<Longrightarrow>
     viewMatrix (translateCamera p s) = composition (translateCamera p s)"
  by (simp_all add: rotateCamera_def translateCamera_def Let_def updateViewMatrix_eq
      composition_def)

text \<open>
  C7 fails on the code.  \<^verbatim>\<open>translateViewMatrix\<close> and \<^verbatim>\<open>rotateViewMatrix\<close> change an
  accumulator and return without recomputing: on the freshly constructed controller,
  whose view matrix is the composition of its state, the view matrix after either call
  is the old one and differs from the composition of the new state.
\<close>

theorem direct_updates_leave_viewMatrix_stale:
  "viewMatrix (Trackball base_object) = composition (Trackball base_object)
   \<and> viewMatrix (translateViewMatrix (Vec3 1 0 0) (Trackball base_object))
       = viewMatrix (Trackball base_object)
   \<and> viewMatrix (translateViewMatrix (Vec3 1 0 0) (Trackball base_object))
       \<noteq> composition (translateViewMatrix (Vec3 1 0 0) (Trackball base_object))
   \<and> viewMatrix (rotateViewMatrix rotX180 (Trackball base_object))
       = viewMatrix (Trackball base_object)
   \<and> viewMatrix (rotateViewMatrix rotX180 (Trackball base_object))
       \<noteq> composition (rotateViewMatrix rotX180 (Trackball base_object))"
  apply (simp add: translateViewMatrix_def rotateViewMatrix_def Let_def quat_of_mat3_rotX180
      Trackball_eq composition_def vec3_add_def)
  apply (simp add: qmul_def qIdentity_def qnormalize_def qnorm_def qsquaredNorm_def)
  apply (simp add: translation4_def mat4_mul_def row_mul_def dot4_def col4_def rotation4_def
      toRotationMatrix_def)
  done

subsection \<open>Setting the defaults\<close>

lemma initOpenGLMatrices_eq:
  "initOpenGLMatrices s = s\<lparr>quaternion := qIdentity, default_quaternion := qIdentity, zoom := 1,
       translationVector := Vec3 0 0 0, rotating := False, translating := False,
       viewMatrix := mat4_mul (translation4 (defaultTranslation s))
                       (translation4 (defaultTranslation s)),
       trackballProjectionMatrix := mat4_Identity\<rparr>"
  by (simp add: initOpenGLMatrices_def Let_def reset_eq translate_cam_def)

lemma rotateCamera_with_defaults:
  assumes "rotating s" and "p \<noteq> head2 (initialPosition s)"
  shows "viewMatrix (rotateCamera p (s\<lparr>defaultTranslation := t\<rparr>))
           = composition ((rotateCamera p s)\<lparr>defaultTranslation := t\<rparr>)"
    and "viewMatrix (rotateCamera p (s\<lparr>default_quaternion := d\<rparr>))
           = composition ((rotateCamera p s)\<lparr>default_quaternion := d\<rparr>)"
  using assms
  by (simp_all add: rotateCamera_def Let_def updateViewMatrix_eq computeRotationAngle_def
      computeSpherePosition_def normalizePosition_def composition_def)

lemma translateCamera_with_defaults:
  assumes "translating s" and "p \<noteq> head2 (initialPosition s)"
  shows "viewMatrix (translateCamera p (s\<lparr>defaultTranslation := t\<rparr>))
           = composition ((translateCamera p s)\<lparr>defaultTranslation := t\<rparr>)"
    and "viewMatrix (translateCamera p (s\<lparr>default_quaternion := d\<rparr>))
           = composition ((translateCamera p s)\<lparr>default_quaternion := d\<rparr>)"
  using assms
  by (simp_all add: translateCamera_def Let_def updateViewMatrix_eq computeTranslationVector_def
      normalizePosition_def composition_def)

text \<open>
  C10 (as amended).  \<^verbatim>\<open>setDefaultTranslation\<close> and \<^verbatim>\<open>setDefaultRotation\<close> write their
  one field and nothing else.  The view matrix is the one held before the call: right
  after a recomputation it is still the composition of the old defaults.  The new
  default enters the view matrix with the next recomputation: a direct
  \<^verbatim>\<open>updateViewMatrix\<close>, a zoom operation, or a gesture update that passes its guard
  composes what it would have composed, with the new default in place of the old.
  \<^verbatim>\<open>reset\<close> recomputes with a new default translation, but it assigns the identity to
  the default orientation first, so a new default orientation is discarded there.
  \<^verbatim>\<open>initOpenGLMatrices\<close> calls \<^verbatim>\<open>reset\<close> and then translates by the default
  translation once more.
\<close>

theorem setDefault_takes_effect_at_recompute:
  "setDefaultTranslation t s = s\<lparr>defaultTranslation := t\<rparr>
   \<and> setDefaultRotation rot s = s\<lparr>default_quaternion := quat_of_mat3 rot\<rparr>
   \<and> viewMatrix (setDefaultTranslation t s) = viewMatrix s
   \<and> viewMatrix (setDefaultRotation rot s) = viewMatrix s
   \<and> viewMatrix (setDefaultTranslation t (updateViewMatrix s)) = composition s
   \<and> viewMatrix (setDefaultRotation rot (updateViewMatrix s)) = composition s
   \<and> viewMatrix (updateViewMatrix (setDefaultTranslation t s))
       = composition (s\<lparr>defaultTranslation := t\<rparr>)
   \<and> viewMatrix (updateViewMatrix (setDefaultRotation rot s))
       = composition (s\<lparr>default_quaternion := quat_of_mat3 rot\<rparr>)
   \<and> viewMatrix (increaseZoom k (setDefaultTranslation t s))
       = composition ((increaseZoom k s)\<lparr>defaultTranslation := t\<rparr>)
   \<and> viewMatrix (increaseZoom k (setDefaultRotation rot s))
       = composition ((increaseZoom k s)\<lparr>default_quaternion := quat_of_mat3 rot\<rparr>)
   \<and> viewMatrix (decreaseZoom k (setDefaultTranslation t s))
       = composition ((decreaseZoom k s)\<lparr>defaultTranslation := t\<rparr>)
   \<and> viewMatrix (decreaseZoom k (setDefaultRotation rot s))
       = composition ((decreaseZoom k s)\<lparr>default_quaternion := quat_of_mat3 rot\<rparr>)
   \<and> viewMatrix (applyScaleToViewMatrix k (setDefaultTranslation t s))
       = composition ((applyScaleToViewMatrix k s)\<lparr>defaultTranslation := t\<rparr>)
   \<and> viewMatrix (applyScaleToViewMatrix k (setDefaultRotation rot s))
       = composition ((applyScaleToViewMatrix k s)\<lparr>default_quaternion := quat_of_mat3 rot\<rparr>)
   \<and> (rotating s \<and> p \<noteq> head2 (initialPosition s) \<longrightarrow>
        viewMatrix (rotateCamera p (setDefaultTranslation t s))
          = composition ((rotateCamera p s)\<lparr>defaultTranslation := t\<rparr>)
        \<and> viewMatrix (rotateCamera p (setDefaultRotation rot s))
          = composition ((rotateCamera p s)\<lparr>default_quaternion := quat_of_mat3 rot\<rparr>))
   \<and> (translating s \<and> p \<noteq> head2 (initialPosition s) \<longrightarrow>
        viewMatrix (translateCamera p (setDefaultTranslation t s))
          = composition ((translateCamera p s)\<lparr>defaultTranslation := t\<rparr>)
        \<and> viewMatrix (translateCamera p (setDefaultRotation rot s))
          = composition ((translateCamera p s)\<lparr>default_quaternion := quat_of_mat3 rot\<rparr>))
   \<and> viewMatrix (reset (setDefaultTranslation t s))
       = composition ((reset s)\<lparr>defaultTranslation := t\<rparr>)
   \<and> viewMatrix (reset (setDefaultRotation rot s)) = viewMatrix (reset s)
   \<and> default_quaternion (reset (setDefaultRotation rot s)) = qIdentity
   \<and> viewMatrix (initOpenGLMatrices (setDefaultTranslation t s))
       = mat4_mul (translation4 t) (translation4 t)
   \<and> viewMatrix (initOpenGLMatrices (setDefaultRotation rot s))
       = viewMatrix (initOpenGLMatrices s)
   \<and> default_quaternion (initOpenGLMatrices (setDefaultRotation rot s)) = qIdentity"
proof -
  have setters: "setDefaultTranslation t s = s\<lparr>defaultTranslation := t\<rparr>"
    "setDefaultRotation rot s = s\<lparr>default_quaternion := quat_of_mat3 rot\<rparr>"
    by (simp_all add: setDefaultTranslation_def setDefaultRotation_def)
  have direct: "viewMatrix (setDefaultTranslation t (updateViewMatrix s)) = composition s"
    "viewMatrix (setDefaultRotation rot (updateViewMatrix s)) = composition s"
    by (simp_all add: setDefaultTranslation_def setDefaultRotation_def updateViewMatrix_eq)
  have zooms:
    "viewMatrix (increaseZoom k (s\<lparr>defaultTranslation := t\<rparr>))
       = composition ((increaseZoom k s)\<lparr>defaultTranslation := t\<rparr>)"
    "viewMatrix (increaseZoom k (s\<lparr>default_quaternion := quat_of_mat3 rot\<rparr>))
       = composition ((increaseZoom k s)\<lparr>default_quaternion := quat_of_mat3 rot\<rparr>)"
    "viewMatrix (decreaseZoom k (s\<lparr>defaultTranslation := t\<rparr>))
       = composition ((decreaseZoom k s)\<lparr>defaultTranslation := t\<rparr>)"
    "viewMatrix (decreaseZoom k (s\<lparr>default_quaternion := quat_of_mat3 rot\<rparr>))
       = composition ((decreaseZoom k s)\<lparr>default_quaternion := quat_of_mat3 rot\<rparr>)"
    "viewMatrix (applyScaleToViewMatrix k (s\<lparr>defaultTranslation := t\<rparr>))
       = composition ((applyScaleToViewMatrix k s)\<lparr>defaultTranslation := t\<rparr>)"
    "viewMatrix (applyScaleToViewMatrix k (s\<lparr>default_quaternion := quat_of_mat3 rot\<rparr>))
       = composition ((applyScaleToViewMatrix k s)\<lparr>default_quaternion := quat_of_mat3 rot\<rparr>)"
    by (simp_all add: increaseZoom_def decreaseZoom_def applyScaleToViewMatrix_def
        updateViewMatrix_eq composition_def)
  have resets:
    "viewMatrix (reset (s\<lparr>defaultTranslation := t\<rparr>))
       = composition ((reset s)\<lparr>defaultTranslation := t\<rparr>)"
    "viewMatrix (reset (s\<lparr>default_quaternion := quat_of_mat3 rot\<rparr>)) = viewMatrix (reset s)"
    "default_quaternion (reset (s\<lparr>default_quaternion := quat_of_mat3 rot\<rparr>)) = qIdentity"
    by (simp_all add: reset_eq composition_def)
  have inits:
    "viewMatrix (initOpenGLMatrices (s\<lparr>defaultTranslation := t\<rparr>))
       = mat4_mul (translation4 t) (translation4 t)"
    "viewMatrix (initOpenGLMatrices (s\<lparr>default_quaternion := quat_of_mat3 rot\<rparr>))
       = viewMatrix (initOpenGLMatrices s)"
    "default_quaternion (initOpenGLMatrices (s\<lparr>default_quaternion := quat_of_mat3 rot\<rparr>))
       = qIdentity"
    by (simp_all add: initOpenGLMatrices_eq)
  show ?thesis
    unfolding setters
    using direct [unfolded setters] zooms resets inits
      rotateCamera_with_defaults [of s p] translateCamera_with_defaults [of s p]
    by (simp add: updateViewMatrix_eq)
qed

theorem setDefault_takes_effect_at_recompute_witness:
  "rotating overlap_state \<and> translating overlap_state
   \<and> Vec2 600 300 \<noteq> head2 (initialPosition overlap_state)
   \<and> viewMatrix (rotateCamera (Vec2 600 300) (setDefaultTranslation (Vec3 0 0 (- 2)) overlap_state))
       = composition ((rotateCamera (Vec2 600 300) overlap_state)
                        \<lparr>defaultTranslation := Vec3 0 0 (- 2)\<rparr>)
   \<and> viewMatrix (rotateCamera (Vec2 600 300) (setDefaultRotation rotX180 overlap_state))
       = composition ((rotateCamera (Vec2 600 300) overlap_state)
                        \<lparr>default_quaternion := quat_of_mat3 rotX180\<rparr>)
   \<and> viewMatrix (translateCamera (Vec2 600 300) (setDefaultTranslation (Vec3 0 0 (- 2)) overlap_state))
       = composition ((translateCamera (Vec2 600 300) overlap_state)
                        \<lparr>defaultTranslation := Vec3 0 0 (- 2)\<rparr>)
   \<and> viewMatrix (translateCamera (Vec2 600 300) (setDefaultRotation rotX180 overlap_state))
       = composition ((translateCamera (Vec2 600 300) overlap_state)
                        \<lparr>default_quaternion := quat_of_mat3 rotX180\<rparr>)
   \<and> viewMatrix (reset (setDefaultRotation rotX180 overlap_state))
       = viewMatrix (reset overlap_state)"
proof -
  have h: "rotating overlap_state" "translating overlap_state"
    "Vec2 600 300 \<noteq> head2 (initialPosition overlap_state)"
    by (simp_all add: overlap_state_eq head2_def)
  show ?thesis
    using setDefault_takes_effect_at_recompute
      [where t = "Vec3 0 0 (- 2)" and s = overlap_state and rot = rotX180 and k = 2
         and p = "Vec2 600 300"] h
    by blast
qed

text \<open>
  C10 as stated fails for \<^verbatim>\<open>reset\<close>, an operation that triggers
  \<^verbatim>\<open>updateViewMatrix\<close>: after the default orientation is set to the half turn about X
  on the freshly constructed controller, \<^verbatim>\<open>reset\<close> yields the view matrix it yields
  without the setter, not the composition with the new default.
\<close>

theorem reset_ignores_new_default_rotation:
  "default_quaternion (setDefaultRotation rotX180 (Trackball base_object)) = Quat 0 1 0 0
   \<and> viewMatrix (reset (setDefaultRotation rotX180 (Trackball base_object)))
       = viewMatrix (reset (Trackball base_object))
   \<and> viewMatrix (reset (setDefaultRotation rotX180 (Trackball base_object)))
       \<noteq> composition ((reset (setDefaultRotation rotX180 (Trackball base_object)))
                         \<lparr>default_quaternion := Quat 0 1 0 0\<rparr>)"
  apply (simp add: setDefaultRotation_def quat_of_mat3_rotX180 reset_eq Trackball_eq
      composition_def)
  apply (simp add: translation4_def mat4_mul_def row_mul_def dot4_def col4_def rotation4_def
      toRotationMatrix_def)
  done

subsection \<open>Vector and quaternion algebra\<close>

lemma dot3_self_nonneg: "0 \<le> dot3 a a"
  by (simp add: dot3_def)

lemma norm3_pos_z: "0 < v3z a \<Longrightarrow> 0 < norm3 a"
proof -
  assume z: "0 < v3z a"
  have "0 < v3z a * v3z a" using z by simp
  moreover have "0 \<le> v3x a * v3x a" "0 \<le> v3y a * v3y a" by simp_all
  ultimately have "0 < dot3 a a" unfolding dot3_def by linarith
  then show ?thesis by (simp add: norm3_def)
qed

lemma norm3_normalize3: "0 < norm3 a \<Longrightarrow> norm3 (normalize3 a) = 1"
proof -
  assume p: "0 < norm3 a"
  have sq: "(norm3 a)\<^sup>2 = dot3 a a"
    by (simp add: norm3_def dot3_self_nonneg)
  have "dot3 (normalize3 a) (normalize3 a) = dot3 a a / (norm3 a)\<^sup>2"
    by (simp add: dot3_def normalize3_def power2_eq_square add_divide_distrib)
  also have "\<dots> = 1"
  proof -
    have "(norm3 a)\<^sup>2 \<noteq> 0" using p by simp
    then show ?thesis by (simp add: sq)
  qed
  finally show ?thesis by (simp add: norm3_def)
qed

lemma normalize3_z_pos: "0 < v3z a \<Longrightarrow> 0 < v3z (normalize3 a)"
  using norm3_pos_z [of a] by (simp add: normalize3_def)

lemma normalize3_unit: "norm3 a = 1 \<Longrightarrow> normalize3 a = a"
  by (simp add: normalize3_def)

lemma qsquaredNorm_qmul: "qsquaredNorm (qmul a b) = qsquaredNorm a * qsquaredNorm b"
  by (simp add: qsquaredNorm_def qmul_def algebra_simps)

lemma qnorm_qmul: "qnorm (qmul a b) = qnorm a * qnorm b"
  by (simp add: qnorm_def qsquaredNorm_qmul real_sqrt_mult)

lemma qnormalize_unit: "qnorm q = 1 \<Longrightarrow> qnormalize q = q"
  by (simp add: qnormalize_def)

lemma qmul_qIdentity_left: "qmul qIdentity q = q"
  by (simp add: qmul_def qIdentity_def)

lemma qmul_qIdentity_right: "qmul q qIdentity = q"
  by (simp add: qmul_def qIdentity_def)

lemma qnorm_qIdentity: "qnorm qIdentity = 1"
  by (simp add: qnorm_def qsquaredNorm_def qIdentity_def)

lemma quat_of_AngleAxis_zero: "quat_of_AngleAxis 0 axis = qIdentity"
  by (simp add: quat_of_AngleAxis_def qIdentity_def)

lemma qnorm_quat_of_AngleAxis: "norm3 axis = 1 \<Longrightarrow> qnorm (quat_of_AngleAxis a axis) = 1"
proof -
  assume u: "norm3 axis = 1"
  have d: "dot3 axis axis = 1"
    using u by (simp add: norm3_def)
  have "qsquaredNorm (quat_of_AngleAxis a axis)
          = (cos (a / 2))\<^sup>2 + (sin (a / 2))\<^sup>2 * dot3 axis axis"
    by (simp add: qsquaredNorm_def quat_of_AngleAxis_def dot3_def power2_eq_square algebra_simps)
  then show ?thesis using d by (simp add: qnorm_def)
qed

lemma cross_self: "cross a a = Vec3 0 0 0"
  by (simp add: cross_def)

lemma norm3_zero: "norm3 (Vec3 0 0 0) = 0"
  by (simp add: norm3_def dot3_def)

lemma norm3_eq_0D: "norm3 a = 0 \<Longrightarrow> a = Vec3 0 0 0"
proof -
  assume "norm3 a = 0"
  then have "dot3 a a = 0" by (simp add: norm3_def)
  then have "(v3x a)\<^sup>2 + (v3y a)\<^sup>2 + (v3z a)\<^sup>2 = 0"
    by (simp add: dot3_def power2_eq_square)
  then have "v3x a = 0 \<and> v3y a = 0 \<and> v3z a = 0"
    by (simp add: sum_power2_eq_zero_iff add_nonneg_eq_0_iff)
  then show ?thesis by (cases a) simp
qed

lemma lagrange: "dot3 (cross a b) (cross a b) + (dot3 a b)\<^sup>2 = dot3 a a * dot3 b b"
  by (simp add: dot3_def cross_def power2_eq_square algebra_simps)

lemma unit_parallel_dot:
  assumes a: "norm3 a = 1" and b: "norm3 b = 1" and c: "norm3 (cross a b) = 0"
    and za: "0 < v3z a" and zb: "0 < v3z b"
  shows "dot3 a b = 1"
proof -
  have da: "dot3 a a = 1" using a by (simp add: norm3_def)
  have db: "dot3 b b = 1" using b by (simp add: norm3_def)
  have dc: "dot3 (cross a b) (cross a b) = 0" using c by (simp add: norm3_def)
  have sq: "(dot3 a b)\<^sup>2 = 1" using lagrange [of a b] da db dc by simp
  then have cases: "dot3 a b = 1 \<or> dot3 a b = - 1"
    by (simp add: power2_eq_1_iff)
  have "dot3 a b \<noteq> - 1"
  proof
    assume m: "dot3 a b = - 1"
    have "(v3x a + v3x b)\<^sup>2 + (v3y a + v3y b)\<^sup>2 + (v3z a + v3z b)\<^sup>2
            = dot3 a a + 2 * dot3 a b + dot3 b b"
      by (simp add: dot3_def power2_eq_square algebra_simps)
    also have "\<dots> = 0" using da db m by simp
    finally have "v3z a + v3z b = 0"
      by (simp add: sum_power2_eq_zero_iff add_nonneg_eq_0_iff)
    with za zb show False by linarith
  qed
  with cases show ?thesis by simp
qed

text \<open>
  Eigen's conversion of the rotation matrix of a unit quaternion gives a unit
  quaternion again, in each of its four branches.
\<close>

lemma pivot_unit:
  fixes a b c d :: real
  assumes c: "c \<noteq> 0" and u: "a * a + b * b + c * c + d * d = 1"
  shows "(4 * (a * c) * (0.5 / sqrt (4 * (c * c)))) * (4 * (a * c) * (0.5 / sqrt (4 * (c * c))))
       + (4 * (b * c) * (0.5 / sqrt (4 * (c * c)))) * (4 * (b * c) * (0.5 / sqrt (4 * (c * c))))
       + (4 * (d * c) * (0.5 / sqrt (4 * (c * c)))) * (4 * (d * c) * (0.5 / sqrt (4 * (c * c))))
       + (0.5 * sqrt (4 * (c * c))) * (0.5 * sqrt (4 * (c * c))) = 1"
proof -
  have s: "sqrt (4 * (c * c)) = 2 * \<bar>c\<bar>"
    by (simp add: real_sqrt_mult)
  have ac: "\<bar>c\<bar> \<noteq> 0" using c by simp
  have cc: "\<bar>c\<bar> * \<bar>c\<bar> = c * c" by simp
  have k: "4 * (x * c) * (0.5 / (2 * \<bar>c\<bar>)) * (4 * (x * c) * (0.5 / (2 * \<bar>c\<bar>))) = x * x" for x
  proof -
    have "4 * (x * c) * (0.5 / (2 * \<bar>c\<bar>)) * (4 * (x * c) * (0.5 / (2 * \<bar>c\<bar>)))
            = (x * x) * (c * c) / (\<bar>c\<bar> * \<bar>c\<bar>)"
      by (simp add: field_simps)
    also have "\<dots> = x * x" using c by (simp add: cc)
    finally show ?thesis .
  qed
  have l: "(0.5 * (2 * \<bar>c\<bar>)) * (0.5 * (2 * \<bar>c\<bar>)) = c * c"
    by (simp add: cc)
  show ?thesis unfolding s k l using u by simp
qed

lemma square_le_zeroD: "(a::real) * a \<le> 0 \<Longrightarrow> a = 0"
  using zero_le_square [of a] by (simp add: order_antisym_conv)

lemma quat_of_mat3_toRotationMatrix_unit:
  assumes n: "qnorm u = 1"
  shows "qnorm (quat_of_mat3 (toRotationMatrix u)) = 1"
proof -
  obtain w x y z where u: "u = Quat w x y z" by (cases u)
  have unit: "w * w + x * x + y * y + z * z = 1"
    using n by (simp add: u qnorm_def qsquaredNorm_def)
  define m00 where "m00 = 1 - (2 * y * y + 2 * z * z)"
  define m01 where "m01 = 2 * y * x - 2 * z * w"
  define m02 where "m02 = 2 * z * x + 2 * y * w"
  define m10 where "m10 = 2 * y * x + 2 * z * w"
  define m11 where "m11 = 1 - (2 * x * x + 2 * z * z)"
  define m12 where "m12 = 2 * z * y - 2 * x * w"
  define m20 where "m20 = 2 * z * x - 2 * y * w"
  define m21 where "m21 = 2 * z * y + 2 * x * w"
  define m22 where "m22 = 1 - (2 * x * x + 2 * y * y)"
  note defs = m00_def m01_def m02_def m10_def m11_def m12_def m20_def m21_def m22_def
  have m: "toRotationMatrix u = Mat3 (Vec3 m00 m01 m02) (Vec3 m10 m11 m12) (Vec3 m20 m21 m22)"
    by (simp add: toRotationMatrix_def Let_def u defs)
  have tw: "m00 + m11 + m22 + 1 = 4 * (w * w)"
    and tz: "m22 - m00 - m11 + 1 = 4 * (z * z)"
    and ty: "m11 - m22 - m00 + 1 = 4 * (y * y)"
    and tx: "m00 - m11 - m22 + 1 = 4 * (x * x)"
    using unit by (simp_all add: defs)
  have dx: "m21 - m12 = 4 * (x * w)" and dy: "m02 - m20 = 4 * (y * w)"
    and dz: "m10 - m01 = 4 * (z * w)"
    and sxz: "m02 + m20 = 4 * (x * z)" and syz: "m12 + m21 = 4 * (y * z)"
    and sxy: "m01 + m10 = 4 * (x * y)"
    by (simp_all add: defs)
  have sq: "qsquaredNorm (quat_of_mat3 (toRotationMatrix u)) = 1"
  proof (cases "m00 + m11 + m22 > 0")
    case True
    then have "w \<noteq> 0" using tw by auto
    from pivot_unit [of w x y z] this unit
    show ?thesis
      using True tw dx dy dz
      by (simp add: m quat_of_mat3_def Let_def qsquaredNorm_def add.commute add.left_commute)
  next
    case nt: False
    show ?thesis
    proof (cases "m22 > (if m11 > m00 then m11 else m00)")
      case True
      then have "z * z > x * x \<or> z * z > y * y"
        by (auto simp: defs split: if_splits)
      then have "z \<noteq> 0"
        by (metis mult_zero_left not_square_less_zero)
      from pivot_unit [of z w x y] this unit
      show ?thesis
        using nt True tz dz sxz syz
        by (simp add: m quat_of_mat3_def Let_def qsquaredNorm_def mult.commute add.commute add.left_commute)
    next
      case n2: False
      show ?thesis
      proof (cases "m11 > m00")
        case True
        then have "y * y > x * x" by (simp add: defs)
        then have "y \<noteq> 0"
          by (metis mult_zero_left not_square_less_zero)
        from pivot_unit [of y w x z] this unit
        show ?thesis
          using nt n2 True ty dy sxy syz
          by (simp add: m quat_of_mat3_def Let_def qsquaredNorm_def mult.commute add.commute add.left_commute)
      next
        case n3: False
        have "x \<noteq> 0"
        proof
          assume x0: "x = 0"
          from n3 have "y * y \<le> x * x" by (simp add: defs)
          with x0 have y0: "y = 0" by (simp add: square_le_zeroD)
          from n2 n3 have "z * z \<le> x * x" by (simp add: defs)
          with x0 have z0: "z = 0" by (simp add: square_le_zeroD)
          from unit x0 y0 z0 have "w * w = 1" by simp
          with nt tw show False by simp
        qed
        from pivot_unit [of x w y z] this unit
        show ?thesis
          using nt n2 n3 tx dx sxy sxz
          by (simp add: m quat_of_mat3_def Let_def qsquaredNorm_def mult.commute add.commute add.left_commute)
      qed
    qed
  qed
  then show ?thesis by (simp add: qnorm_def)
qed

subsection \<open>The rotation update\<close>

lemma computeSpherePosition_z_pos:
  assumes r: "0 < radius s"
  shows "0 < v3z (computeSpherePosition s p)"
proof -
  let ?d = "v2x p * v2x p + v2y p * v2y p"
  have rr: "0 < radius s * radius s" using r by simp
  show ?thesis
  proof (cases "?d \<le> radius s * radius s / 2")
    case True
    then have "0 < radius s * radius s - v2x p * v2x p - v2y p * v2y p"
      using rr by linarith
    then show ?thesis using True by (simp add: computeSpherePosition_def Let_def)
  next
    case False
    then have "0 < ?d" using rr by linarith
    then have "0 < sqrt ?d" by simp
    then have "0 < radius s * radius s / (2 * sqrt ?d)" using rr by simp
    then show ?thesis using False by (simp add: computeSpherePosition_def Let_def)
  qed
qed

lemma computeRotationAngle_others:
  "rotating (computeRotationAngle s) = rotating s"
  "radius (computeRotationAngle s) = radius s"
  "viewport (computeRotationAngle s) = viewport s"
  by (simp_all add: computeRotationAngle_def Let_def)

lemma computeRotationAngle_frame:
  "computeRotationAngle s =
     s\<lparr>initialPosition := initialPosition (computeRotationAngle s),
       finalPosition := finalPosition (computeRotationAngle s),
       quaternion := quaternion (computeRotationAngle s)\<rparr>"
  by (simp add: computeRotationAngle_def Let_def)

lemma computeRotationAngle_initialPosition:
  "0 < v3z (initialPosition s) \<Longrightarrow>
     initialPosition (computeRotationAngle s) = normalize3 (initialPosition s)"
  using norm3_pos_z [of "initialPosition s"] by (simp add: computeRotationAngle_def Let_def)

lemma computeRotationAngle_finalPosition:
  "0 < v3z (finalPosition s) \<Longrightarrow>
     finalPosition (computeRotationAngle s) = normalize3 (finalPosition s)"
  using norm3_pos_z [of "finalPosition s"] by (simp add: computeRotationAngle_def Let_def)

lemma increment_unit:
  assumes a: "norm3 a = 1" and b: "norm3 b = 1" and za: "0 < v3z a" and zb: "0 < v3z b"
  shows "qnorm (quat_of_AngleAxis (if dot3 a b \<le> 1 then arccos (dot3 a b) else 0)
           (if norm3 (cross a b) \<noteq> 0 then normalize3 (cross a b) else cross a b)) = 1"
proof (cases "norm3 (cross a b) = 0")
  case True
  have "dot3 a b = 1" by (rule unit_parallel_dot [OF a b True za zb])
  then show ?thesis using True by (simp add: quat_of_AngleAxis_zero qnorm_qIdentity)
next
  case False
  have "0 \<le> norm3 (cross a b)" by (simp add: norm3_def dot3_self_nonneg)
  with False have "0 < norm3 (cross a b)" by simp
  then have "norm3 (normalize3 (cross a b)) = 1" by (rule norm3_normalize3)
  then show ?thesis using False by (simp add: qnorm_quat_of_AngleAxis)
qed

lemma computeRotationAngle_qnorm:
  assumes q: "qnorm (quaternion s) = 1"
    and zi: "0 < v3z (initialPosition s)" and zf: "0 < v3z (finalPosition s)"
  shows "qnorm (quaternion (computeRotationAngle s)) = 1"
proof -
  let ?a = "normalize3 (initialPosition s)" and ?b = "normalize3 (finalPosition s)"
  let ?inc = "quat_of_AngleAxis (if dot3 ?a ?b \<le> 1 then arccos (dot3 ?a ?b) else 0)
           (if norm3 (cross ?a ?b) \<noteq> 0 then normalize3 (cross ?a ?b) else cross ?a ?b)"
  have pi: "0 < norm3 (initialPosition s)" and pf: "0 < norm3 (finalPosition s)"
    using zi zf by (simp_all add: norm3_pos_z)
  have inc: "qnorm ?inc = 1"
    using pi pf zi zf by (intro increment_unit) (simp_all add: norm3_normalize3 normalize3_z_pos)
  have eq: "quaternion (computeRotationAngle s) = qnormalize (qmul ?inc (quaternion s))"
    using pi pf by (simp add: computeRotationAngle_def Let_def)
  have n: "qnorm (qmul ?inc (quaternion s)) = 1"
    using inc q by (simp add: qnorm_qmul)
  show ?thesis using n by (simp add: eq qnormalize_unit)
qed

lemma computeRotationAngle_same:
  assumes q: "qnorm (quaternion s) = 1"
    and i: "norm3 (initialPosition s) = 1"
    and pf: "0 < norm3 (finalPosition s)"
    and f: "normalize3 (finalPosition s) = initialPosition s"
  shows "computeRotationAngle s = s\<lparr>finalPosition := initialPosition s\<rparr>"
proof -
  have d: "dot3 (initialPosition s) (initialPosition s) = 1"
    using i by (simp add: norm3_def)
  show ?thesis
    using q i pf f d
    by (simp add: computeRotationAngle_def Let_def normalize3_unit cross_self norm3_zero
        quat_of_AngleAxis_zero qmul_qIdentity_left qnormalize_unit)
qed

lemma rotateCamera_idle:
  "\<not> rotating s \<Longrightarrow> rotateCamera p s =
     s\<lparr>rotating := True, initialPosition := computeSpherePosition s (normalizePosition s p)\<rparr>"
  by (simp add: rotateCamera_def Let_def)

lemma rotateCamera_skip:
  "rotating s \<Longrightarrow> p = head2 (initialPosition s) \<Longrightarrow> rotateCamera p s = s"
  by (simp add: rotateCamera_def Let_def)

lemma rotateCamera_update:
  "rotating s \<Longrightarrow> p \<noteq> head2 (initialPosition s) \<Longrightarrow>
   rotateCamera p s =
     (let s2 = computeRotationAngle
                 (s\<lparr>finalPosition := computeSpherePosition s (normalizePosition s p)\<rparr>)
      in s2\<lparr>viewMatrix := composition s2, initialPosition := finalPosition s2\<rparr>)"
  by (simp add: rotateCamera_def Let_def updateViewMatrix_eq)

lemma surface_point_cong:
  "radius s' = radius s \<Longrightarrow> viewport s' = viewport s \<Longrightarrow>
   computeSpherePosition s' (normalizePosition s' p)
     = computeSpherePosition s (normalizePosition s p)"
  by (simp add: computeSpherePosition_def normalizePosition_def)

subsection \<open>The unit-norm invariant\<close>

lemma well_formed_rotateCamera:
  assumes wf: "well_formed s"
  shows "well_formed (rotateCamera p s)"
proof -
  let ?F = "computeSpherePosition s (normalizePosition s p)"
  have r: "0 < radius s" and q: "qnorm (quaternion s) = 1"
    using wf by (simp_all add: well_formed_def)
  have zF: "0 < v3z ?F" using r by (rule computeSpherePosition_z_pos)
  show ?thesis
  proof (cases "rotating s")
    case False
    then show ?thesis using wf zF by (simp add: rotateCamera_idle well_formed_def)
  next
    case True
    then have zI: "0 < v3z (initialPosition s)" using wf by (simp add: well_formed_def)
    show ?thesis
    proof (cases "p = head2 (initialPosition s)")
      case True
      with \<open>rotating s\<close> show ?thesis using wf by (simp add: rotateCamera_skip)
    next
      case False
      let ?s1 = "s\<lparr>finalPosition := ?F\<rparr>"
      let ?s2 = "computeRotationAngle ?s1"
      have n: "qnorm (quaternion ?s2) = 1"
        using q zI zF by (intro computeRotationAngle_qnorm) simp_all
      have fp: "finalPosition ?s2 = normalize3 ?F"
        using zF by (simp add: computeRotationAngle_finalPosition)
      have fr: "radius ?s2 = radius s"
        by (simp add: computeRotationAngle_others)
      have "well_formed (?s2\<lparr>viewMatrix := composition ?s2, initialPosition := finalPosition ?s2\<rparr>)"
        using n fp fr r zF by (simp add: well_formed_def normalize3_z_pos)
      then show ?thesis using \<open>rotating s\<close> False by (simp add: rotateCamera_update Let_def)
    qed
  qed
qed

lemma well_formed_Trackball: "well_formed (Trackball u)"
  by (simp add: Trackball_eq well_formed_def qnorm_qIdentity)

lemma well_formed_reset: "well_formed s \<Longrightarrow> well_formed (reset s)"
  by (simp add: reset_eq well_formed_def qnorm_qIdentity)

lemma well_formed_initOpenGLMatrices:
  "well_formed s \<Longrightarrow> well_formed (initOpenGLMatrices s)"
  by (simp add: initOpenGLMatrices_def Let_def translate_cam_def reset_eq well_formed_def
      qnorm_qIdentity)

lemma well_formed_translateCamera: "well_formed s \<Longrightarrow> well_formed (translateCamera p s)"
  by (simp add: translateCamera_def Let_def computeTranslationVector_def updateViewMatrix_eq
      well_formed_def)

lemma well_formed_rotateViewMatrix:
  assumes wf: "well_formed s" and u: "qnorm u = 1"
  shows "well_formed (rotateViewMatrix (toRotationMatrix u) s)"
proof -
  have "qnorm (qmul (quaternion s) (quat_of_mat3 (toRotationMatrix u))) = 1"
    using wf u by (simp add: qnorm_qmul quat_of_mat3_toRotationMatrix_unit well_formed_def)
  then show ?thesis
    using wf by (simp add: rotateViewMatrix_def Let_def qnormalize_unit well_formed_def)
qed

lemma well_formed_computeRotationAngle:
  assumes wf: "well_formed s"
    and zi: "0 < v3z (initialPosition s)" and zf: "0 < v3z (finalPosition s)"
  shows "well_formed (computeRotationAngle s)"
proof -
  have "qnorm (quaternion (computeRotationAngle s)) = 1"
    using wf zi zf by (intro computeRotationAngle_qnorm) (simp_all add: well_formed_def)
  moreover have "0 < v3z (initialPosition (computeRotationAngle s))"
    using zi by (simp add: computeRotationAngle_initialPosition normalize3_z_pos)
  ultimately show ?thesis
    using wf by (simp add: well_formed_def computeRotationAngle_others)
qed

lemma reachable_well_formed: "reachable s \<Longrightarrow> well_formed s"
proof (induction rule: reachable.induct)
  case (r_Trackball u)
  show ?case by (rule well_formed_Trackball)
next
  case (r_rotateCamera s pos)
  then show ?case by (simp add: well_formed_rotateCamera)
next
  case (r_translateCamera s pos)
  then show ?case by (simp add: well_formed_translateCamera)
next
  case (r_rotateViewMatrix s u)
  then show ?case by (simp add: well_formed_rotateViewMatrix)
next
  case (r_reset s)
  then show ?case by (simp add: well_formed_reset)
next
  case (r_initOpenGLMatrices s)
  then show ?case by (simp add: well_formed_initOpenGLMatrices)
next
  case (r_computeRotationAngle s)
  then show ?case by (simp add: well_formed_computeRotationAngle)
qed (simp_all add: well_formed_def setViewport_def computeTranslationVector_def Let_def
      setDefaultTranslation_def setDefaultRotation_def
      setTrackballProjectionMatrix_def setRenderFlag_def endRotation_def endTranslation_def
      increaseZoom_def decreaseZoom_def applyScaleToViewMatrix_def translateViewMatrix_def
      updateViewMatrix_eq)

text \<open>
  C5.  In every reachable state the accumulated quaternion has norm one: each
  composition multiplies two quaternions of norm one, so the renormalization that
  follows divides by one.
\<close>

theorem quaternion_unit_norm: "reachable s \<Longrightarrow> qnorm (quaternion s) = 1"
  using reachable_well_formed [of s] by (simp add: well_formed_def)

subsection \<open>Evaluation of the scenario\<close>

lemma sqrt_64: "sqrt (16 / 25) = 4 / 5"
  by (rule real_sqrt_unique) (simp_all add: power2_eq_square)

lemma sqrt_25_64: "sqrt (25 / 64) = 5 / 8"
  by (rule real_sqrt_unique) (simp_all add: power2_eq_square)

lemma scenario_normalize_begin:
  "normalizePosition (Trackball base_object) (Vec2 400 300) = Vec2 0 0"
  by (simp add: normalizePosition_def Trackball_eq base_object_def)

lemma scenario_begin_eq:
  "scenario_begin = (Trackball base_object)\<lparr>rotating := True, initialPosition := Vec3 0 0 0.8\<rparr>"
  by (simp add: scenario_begin_def rotateCamera_def Let_def scenario_normalize_begin)
     (simp add: computeSpherePosition_def Trackball_eq sqrt_64)

lemma scenario_normalize_update:
  "normalizePosition scenario_begin (Vec2 600 300) = Vec2 0.5 0"
  by (simp add: normalizePosition_def scenario_begin_eq Trackball_eq base_object_def)

lemma scenario_surface_update:
  "computeSpherePosition scenario_begin (Vec2 0.5 0) = Vec3 0.5 0 (sqrt 0.39)"
  by (simp add: computeSpherePosition_def scenario_begin_eq Trackball_eq)

lemma sqrt_039_bounds: "0 < sqrt (39 / 100)" "sqrt (39 / 100) < 4 / 5"
proof -
  show "0 < sqrt (39 / 100)" by simp
  have "sqrt (39 / 100) < sqrt (16 / 25)"
    by (simp del: sqrt_64)
  then show "sqrt (39 / 100) < 4 / 5" by (simp add: sqrt_64)
qed

lemma scenario_cosine: "sqrt 0.39 / 0.8 = sqrt (39 / 100) * 5 / 4"
  by simp

lemma scenario_angle_bounds: "0 < scenario_angle" "scenario_angle < pi"
proof -
  have "- 1 < sqrt (39 / 100) * 5 / 4" "sqrt (39 / 100) * 5 / 4 < 1"
    using sqrt_039_bounds by linarith+
  then show "0 < scenario_angle" "scenario_angle < pi"
    unfolding scenario_angle_def scenario_cosine by (simp_all add: arccos_lt_bounded)
qed

lemma scenario_norms:
  "norm3 (Vec3 0 0 (4 / 5)) = 4 / 5" "norm3 (Vec3 (1 / 2) 0 (sqrt (39 / 100))) = 4 / 5"
  by (simp_all add: norm3_def dot3_def sqrt_64)

lemma scenario_increment:
  "computeRotationAngle (scenario_begin\<lparr>finalPosition := Vec3 0.5 0 (sqrt 0.39)\<rparr>)
     = scenario_begin
        \<lparr>initialPosition := Vec3 0 0 1,
         finalPosition := Vec3 (5 / 8) 0 (sqrt 0.39 / 0.8),
         quaternion := quat_of_AngleAxis scenario_angle (Vec3 0 1 0)\<rparr>"
proof -
  let ?s = "scenario_begin\<lparr>finalPosition := Vec3 0.5 0 (sqrt 0.39)\<rparr>"
  let ?fp = "Vec3 (5 / 8) 0 (sqrt (39 / 100) * 5 / 4)"
  have i: "initialPosition scenario_begin = Vec3 0 0 (4 / 5)"
    and q: "quaternion scenario_begin = qIdentity"
    by (simp_all add: scenario_begin_eq Trackball_eq)
  have ip: "normalize3 (Vec3 0 0 (4 / 5)) = Vec3 0 0 1"
    by (simp add: normalize3_def scenario_norms)
  have fp: "normalize3 (Vec3 (1 / 2) 0 (sqrt (39 / 100))) = ?fp"
    by (simp add: normalize3_def scenario_norms)
  have cr: "cross (Vec3 0 0 1) ?fp = Vec3 0 (5 / 8) 0"
    by (simp add: cross_def)
  have ncr: "norm3 (Vec3 0 (5 / 8) 0) = 5 / 8"
    by (simp add: norm3_def dot3_def sqrt_25_64)
  have ax: "normalize3 (Vec3 0 (5 / 8) 0) = Vec3 0 1 0"
    by (simp add: normalize3_def ncr)
  have d: "dot3 (Vec3 0 0 1) ?fp = sqrt (39 / 100) * 5 / 4"
    by (simp add: dot3_def)
  have d1: "sqrt (39 / 100) * 5 \<le> 4"
    using sqrt_039_bounds by linarith
  have u: "qnorm (quat_of_AngleAxis scenario_angle (Vec3 0 1 0)) = 1"
    by (rule qnorm_quat_of_AngleAxis) (simp add: norm3_def dot3_def)
  have "computeRotationAngle ?s =
          ?s\<lparr>initialPosition := Vec3 0 0 1,
             finalPosition := ?fp,
             quaternion := qnormalize (qmul (quat_of_AngleAxis scenario_angle (Vec3 0 1 0)) qIdentity)\<rparr>"
    by (simp add: computeRotationAngle_def Let_def i q scenario_norms ip fp cr ncr ax d d1
        scenario_angle_def scenario_cosine)
  then show ?thesis
    by (simp add: qmul_qIdentity_right qnormalize_unit u)
qed

lemma scenario_begin_rotating: "rotating scenario_begin"
  by (simp add: scenario_begin_eq)

lemma scenario_update_eq:
  "scenario_update = scenario_begin
        \<lparr>initialPosition := Vec3 (5 / 8) 0 (sqrt 0.39 / 0.8),
         finalPosition := Vec3 (5 / 8) 0 (sqrt 0.39 / 0.8),
         quaternion := quat_of_AngleAxis scenario_angle (Vec3 0 1 0),
         viewMatrix := mat4_mul (translation4 (Vec3 0 0 (- 4)))
                         (rotation4 (quat_of_AngleAxis scenario_angle (Vec3 0 1 0)))\<rparr>"
proof -
  have ne: "Vec2 600 300 \<noteq> head2 (initialPosition scenario_begin)"
    by (simp add: scenario_begin_eq head2_def)
  have "scenario_update =
     (let s2 = computeRotationAngle
                 (scenario_begin\<lparr>finalPosition := Vec3 0.5 0 (sqrt 0.39)\<rparr>)
      in s2\<lparr>viewMatrix := composition s2, initialPosition := finalPosition s2\<rparr>)"
    unfolding scenario_update_def
    by (simp only: rotateCamera_update [OF scenario_begin_rotating ne]
        scenario_normalize_update scenario_surface_update)
  also have "\<dots> = scenario_begin
        \<lparr>initialPosition := Vec3 (5 / 8) 0 (sqrt 0.39 / 0.8),
         finalPosition := Vec3 (5 / 8) 0 (sqrt 0.39 / 0.8),
         quaternion := quat_of_AngleAxis scenario_angle (Vec3 0 1 0),
         viewMatrix := mat4_mul (translation4 (Vec3 0 0 (- 4)))
                         (rotation4 (quat_of_AngleAxis scenario_angle (Vec3 0 1 0)))\<rparr>"
    unfolding scenario_increment Let_def
    by (simp add: composition_def scenario_begin_eq Trackball_eq)
  finally show ?thesis .
qed

lemma scenario_half_angle_sin: "0 < sin (scenario_angle / 2)"
  using scenario_angle_bounds by (intro sin_gt_zero) simp_all

lemma scenario_quaternion_changed:
  "quat_of_AngleAxis scenario_angle (Vec3 0 1 0) \<noteq> qIdentity"
  using scenario_half_angle_sin by (simp add: quat_of_AngleAxis_def qIdentity_def)

lemma scenario_viewMatrix_changed:
  "mat4_mul (translation4 (Vec3 0 0 (- 4)))
     (rotation4 (quat_of_AngleAxis scenario_angle (Vec3 0 1 0)))
   \<noteq> translation4 (Vec3 0 0 (- 4))"
proof
  assume e: "mat4_mul (translation4 (Vec3 0 0 (- 4)))
     (rotation4 (quat_of_AngleAxis scenario_angle (Vec3 0 1 0)))
   = translation4 (Vec3 0 0 (- 4))"
  have "v4_0 (m4r0 (mat4_mul (translation4 (Vec3 0 0 (- 4)))
     (rotation4 (quat_of_AngleAxis scenario_angle (Vec3 0 1 0)))))
      = 1 - 2 * sin (scenario_angle / 2) * sin (scenario_angle / 2)"
    by (simp add: mat4_mul_def row_mul_def dot4_def col4_def translation4_def rotation4_def
        toRotationMatrix_def Let_def quat_of_AngleAxis_def)
  moreover have "v4_0 (m4r0 (translation4 (Vec3 0 0 (- 4)))) = 1"
    by (simp add: translation4_def)
  ultimately have "sin (scenario_angle / 2) * sin (scenario_angle / 2) = 0"
    using e by simp
  then show False using scenario_half_angle_sin by simp
qed

lemma viewport_ok_scenario:
  "viewport_ok (Trackball base_object)" "viewport_ok scenario_begin"
  by (simp_all add: viewport_ok_def scenario_begin_eq Trackball_eq base_object_def)

lemma well_formed_scenario_begin: "well_formed scenario_begin"
  by (simp add: well_formed_def scenario_begin_eq Trackball_eq qnorm_qIdentity)

lemma reachable_scenario_update: "reachable scenario_update"
  unfolding scenario_update_def scenario_begin_def
  by (intro reachable.intros viewport_ok_scenario viewport_ok_scenario [unfolded scenario_begin_def])

text \<open>
  C9.  From the constructed controller with viewport \<open>(0, 0, 800, 600)\<close> and radius
  \<open>0.8\<close>: the screen point \<open>(400, 300)\<close> normalizes to \<open>(0, 0)\<close> and the rotation begins
  with the surface point \<open>(0, 0, 0.8)\<close>; \<open>(600, 300)\<close> normalizes to \<open>(0.5, 0)\<close>, and after
  the update the quaternion is the rotation about the Y axis by an angle strictly
  between \<open>0\<close> and \<open>\<pi>\<close>.  The view matrix was the composition of the defaults, and the
  update replaces it by a different matrix, the composition of the new state.
\<close>

theorem scenario_rotation_about_Y:
  "viewport (Trackball base_object) = Vec4 0 0 800 600
   \<and> radius (Trackball base_object) = 0.8
   \<and> normalizePosition (Trackball base_object) (Vec2 400 300) = Vec2 0 0
   \<and> rotating scenario_begin
   \<and> initialPosition scenario_begin = Vec3 0 0 0.8
   \<and> normalizePosition scenario_begin (Vec2 600 300) = Vec2 0.5 0
   \<and> quaternion scenario_update = quat_of_AngleAxis scenario_angle (Vec3 0 1 0)
   \<and> 0 < scenario_angle \<and> scenario_angle < pi
   \<and> viewMatrix scenario_begin = composition (Trackball base_object)
   \<and> viewMatrix scenario_update = composition scenario_update
   \<and> viewMatrix scenario_update \<noteq> viewMatrix scenario_begin"
proof -
  have a: "viewport (Trackball base_object) = Vec4 0 0 800 600"
    "radius (Trackball base_object) = 0.8"
    by (simp_all add: Trackball_eq base_object_def)
  have b: "initialPosition scenario_begin = Vec3 0 0 0.8"
    by (simp add: scenario_begin_eq)
  have c: "quaternion scenario_update = quat_of_AngleAxis scenario_angle (Vec3 0 1 0)"
    by (simp add: scenario_update_eq)
  have d: "viewMatrix scenario_begin = composition (Trackball base_object)"
    by (simp add: scenario_begin_eq Trackball_eq composition_def)
  have e: "viewMatrix scenario_update = composition scenario_update"
    by (simp add: scenario_update_eq scenario_begin_eq Trackball_eq composition_def)
  have f: "viewMatrix scenario_update \<noteq> viewMatrix scenario_begin"
    using scenario_viewMatrix_changed
    by (simp add: scenario_update_eq scenario_begin_eq Trackball_eq)
  show ?thesis
    using a b c d e f scenario_normalize_begin scenario_begin_rotating
      scenario_normalize_update scenario_angle_bounds
    by simp
qed

text \<open>The state of the scenario after the update is reachable.\<close>

theorem quaternion_unit_norm_witness:
  "reachable scenario_update \<and> qnorm (quaternion scenario_update) = 1"
  using quaternion_unit_norm [OF reachable_scenario_update] reachable_scenario_update by simp

subsection \<open>The same position twice\<close>

lemma rotateCamera_advances_sample:
  assumes wf: "well_formed s" and rot: "rotating s" and ne: "p \<noteq> head2 (initialPosition s)"
  shows "initialPosition (rotateCamera p s)
           = normalize3 (computeSpherePosition s (normalizePosition s p))"
proof -
  have "0 < v3z (computeSpherePosition s (normalizePosition s p))"
    using wf by (intro computeSpherePosition_z_pos) (simp add: well_formed_def)
  then show ?thesis
    using rot ne by (simp add: rotateCamera_update Let_def computeRotationAngle_finalPosition)
qed

text \<open>
  Over the reals a repeated update returns the state of the first one: the stored
  sample has unit length, scaling it to unit length again returns it, and the arc
  cosine of one is zero, so the second increment is the identity rotation.
\<close>

lemma rotateCamera_twice_state:
  assumes wf: "well_formed s" and rot: "rotating s"
  shows "rotateCamera p (rotateCamera p s) = rotateCamera p s"
proof (cases "p = head2 (initialPosition s)")
  case True
  with rot show ?thesis by (simp add: rotateCamera_skip)
next
  case False
  let ?F = "computeSpherePosition s (normalizePosition s p)"
  let ?s2 = "computeRotationAngle (s\<lparr>finalPosition := ?F\<rparr>)"
  let ?r = "?s2\<lparr>viewMatrix := composition ?s2, initialPosition := finalPosition ?s2\<rparr>"
  have r: "0 < radius s" and q: "qnorm (quaternion s) = 1"
    and zI: "0 < v3z (initialPosition s)"
    using wf rot by (simp_all add: well_formed_def)
  have zF: "0 < v3z ?F" using r by (rule computeSpherePosition_z_pos)
  have pF: "0 < norm3 ?F" using zF by (rule norm3_pos_z)
  have first: "rotateCamera p s = ?r"
    using rot False by (simp add: rotateCamera_update Let_def)
  have n: "qnorm (quaternion ?s2) = 1"
    using q zI zF by (intro computeRotationAngle_qnorm) simp_all
  have fp: "finalPosition ?s2 = normalize3 ?F"
    using zF by (simp add: computeRotationAngle_finalPosition)
  have frame: "rotating ?s2 = rotating s" "radius ?s2 = radius s" "viewport ?s2 = viewport s"
    by (simp_all add: computeRotationAngle_others)
  have same_point: "computeSpherePosition ?r (normalizePosition ?r p) = ?F"
    by (rule surface_point_cong) (simp_all add: frame)
  have comp: "composition ?r = composition ?s2"
    by (simp add: composition_def)
  show ?thesis
  proof (cases "p = head2 (initialPosition ?r)")
    case True
    then show ?thesis using rot frame by (simp add: first rotateCamera_skip)
  next
    case ne: False
    have "computeRotationAngle (?r\<lparr>finalPosition := ?F\<rparr>)
            = (?r\<lparr>finalPosition := ?F\<rparr>)\<lparr>finalPosition := initialPosition (?r\<lparr>finalPosition := ?F\<rparr>)\<rparr>"
      using n fp pF by (intro computeRotationAngle_same) (simp_all add: norm3_normalize3)
    also have "\<dots> = ?r" by simp
    finally have again: "computeRotationAngle (?r\<lparr>finalPosition := ?F\<rparr>) = ?r" .
    have "rotateCamera p ?r = ?r"
      using ne rot frame
      by (simp add: rotateCamera_update [of ?r p] Let_def same_point again comp)
    then show ?thesis by (simp add: first)
  qed
qed

subsection \<open>A repeated update is not skipped\<close>

lemma sqrt_4_9: "sqrt (4 / 9) = 2 / 3"
  by (rule real_sqrt_unique) (simp_all add: power2_eq_square)

lemma repeat_normalize:
  "normalizePosition scenario_begin (Vec2 400 100) = Vec2 0 (2 / 3)"
  by (simp add: normalizePosition_def scenario_begin_eq Trackball_eq base_object_def)

lemma repeat_surface:
  "computeSpherePosition scenario_begin (Vec2 0 (2 / 3)) = Vec3 0 (2 / 3) 0.48"
  by (simp add: computeSpherePosition_def scenario_begin_eq Trackball_eq sqrt_4_9)

lemma repeat_first_guard: "Vec2 400 100 \<noteq> head2 (initialPosition scenario_begin)"
  by (simp add: scenario_begin_eq head2_def)

lemma repeat_state_sample:
  "initialPosition repeat_state = normalize3 (Vec3 0 (2 / 3) 0.48)"
  unfolding repeat_state_def
  by (simp only: rotateCamera_advances_sample [OF well_formed_scenario_begin
        scenario_begin_rotating repeat_first_guard] repeat_normalize repeat_surface)

lemma repeat_state_others:
  "rotating repeat_state" "radius repeat_state = radius scenario_begin"
  "viewport repeat_state = viewport scenario_begin"
  unfolding repeat_state_def
  using scenario_begin_rotating repeat_first_guard
  by (simp_all add: rotateCamera_update Let_def computeRotationAngle_others)

lemma repeat_second_guard: "Vec2 400 100 \<noteq> head2 (initialPosition repeat_state)"
  by (simp add: repeat_state_sample head2_def normalize3_def)

text \<open>
  C6 fails on the code.  After the rotation is begun at \<open>(400, 300)\<close> and updated at
  \<open>(400, 100)\<close>, the stored sample is the surface point \<open>(0, 2/3, 0.48)\<close> scaled to
  unit length.  The guard of \<^verbatim>\<open>rotateCamera\<close> compares the raw position \<open>(400, 100)\<close>
  with the first two coefficients of that unit vector, which are neither the raw nor
  the normalized position, so the same position given again is not skipped: the code
  runs \<^verbatim>\<open>computeRotationAngle\<close> and \<^verbatim>\<open>updateViewMatrix\<close> once more.  The quaternion
  then stays as it is only where the recomputed increment is exactly the identity.
\<close>

theorem repeated_update_is_not_skipped:
  "repeat_state = rotateCamera (Vec2 400 100) (rotateCamera (Vec2 400 300) (Trackball base_object))
   \<and> rotating repeat_state
   \<and> computeSpherePosition repeat_state (normalizePosition repeat_state (Vec2 400 100))
       = Vec3 0 (2 / 3) 0.48
   \<and> initialPosition repeat_state = normalize3 (Vec3 0 (2 / 3) 0.48)
   \<and> head2 (initialPosition repeat_state) \<noteq> Vec2 0 (2 / 3)
   \<and> Vec2 400 100 \<noteq> head2 (initialPosition repeat_state)
   \<and> rotateCamera (Vec2 400 100) repeat_state =
       (let s2 = computeRotationAngle (repeat_state\<lparr>finalPosition := Vec3 0 (2 / 3) 0.48\<rparr>)
        in s2\<lparr>viewMatrix := composition s2, initialPosition := finalPosition s2\<rparr>)"
proof -
  have a: "repeat_state
      = rotateCamera (Vec2 400 100) (rotateCamera (Vec2 400 300) (Trackball base_object))"
    by (simp add: repeat_state_def scenario_begin_def)
  have F: "computeSpherePosition repeat_state (normalizePosition repeat_state (Vec2 400 100))
       = Vec3 0 (2 / 3) 0.48"
    using surface_point_cong [OF repeat_state_others(2) repeat_state_others(3), of "Vec2 400 100"]
    by (simp only: repeat_normalize repeat_surface)
  have n: "norm3 (Vec3 0 (2 / 3) 0.48) \<noteq> 1"
  proof
    assume "norm3 (Vec3 0 (2 / 3) 0.48) = 1"
    then have "dot3 (Vec3 0 (2 / 3) 0.48) (Vec3 0 (2 / 3) 0.48) = 1"
      by (simp add: norm3_def)
    then show False by (simp add: dot3_def)
  qed
  have "(2 / 3) / norm3 (Vec3 0 (2 / 3) 0.48) \<noteq> 2 / 3"
  proof
    assume e: "(2 / 3) / norm3 (Vec3 0 (2 / 3) 0.48) = 2 / 3"
    then have "norm3 (Vec3 0 (2 / 3) 0.48) \<noteq> 0" by auto
    with e have "norm3 (Vec3 0 (2 / 3) 0.48) = 1" by (simp add: field_simps)
    with n show False by simp
  qed
  then have h: "head2 (initialPosition repeat_state) \<noteq> Vec2 0 (2 / 3)"
    by (simp add: repeat_state_sample head2_def normalize3_def)
  have u: "rotateCamera (Vec2 400 100) repeat_state =
       (let s2 = computeRotationAngle (repeat_state\<lparr>finalPosition := Vec3 0 (2 / 3) 0.48\<rparr>)
        in s2\<lparr>viewMatrix := composition s2, initialPosition := finalPosition s2\<rparr>)"
    by (simp only: rotateCamera_update [OF repeat_state_others(1) repeat_second_guard] F)
  show ?thesis
    using a repeat_state_others(1) F repeat_state_sample h repeat_second_guard u by simp
qed

end
